theory Spec2Isabelle
  imports Main "HOL-Library.Word" "HOL-Library.AList"
begin

section \<open>Shared types of sensor.cpp and source.cpp\<close>

text \<open>
  The enums below are declared in headers of the library; the model lists the members
  that sensor.cpp and source.cpp name, and \<open>RS2_EXTENSION_UNKNOWN\<close> for an extension that
  \<open>frame_source::init\<close> does not create an archive for.
\<close>

type_synonym byte = "8 word"

datatype rs2_stream =
    RS2_STREAM_ANY | RS2_STREAM_DEPTH | RS2_STREAM_COLOR | RS2_STREAM_INFRARED
  | RS2_STREAM_FISHEYE | RS2_STREAM_GYRO | RS2_STREAM_ACCEL | RS2_STREAM_GPIO
  | RS2_STREAM_POSE | RS2_STREAM_CONFIDENCE

datatype rs2_format =
    RS2_FORMAT_ANY | RS2_FORMAT_Z16 | RS2_FORMAT_RGB8 | RS2_FORMAT_Y8 | RS2_FORMAT_Y16
  | RS2_FORMAT_YUYV | RS2_FORMAT_MJPEG | RS2_FORMAT_Z16H | RS2_FORMAT_Y12I
  | RS2_FORMAT_MOTION_XYZ32F | RS2_FORMAT_RAW8

datatype rs2_extension =
    RS2_EXTENSION_UNKNOWN | RS2_EXTENSION_VIDEO_FRAME | RS2_EXTENSION_COMPOSITE_FRAME
  | RS2_EXTENSION_POINTS | RS2_EXTENSION_DEPTH_FRAME | RS2_EXTENSION_DISPARITY_FRAME
  | RS2_EXTENSION_MOTION_FRAME | RS2_EXTENSION_POSE_FRAME

datatype rs2_timestamp_domain =
    RS2_TIMESTAMP_DOMAIN_HARDWARE_CLOCK | RS2_TIMESTAMP_DOMAIN_SYSTEM_TIME

text \<open>
  Times are doubles in the source. The model never computes with them: a time is the
  symbolic value the code read it from.
\<close>

datatype rs2_time_t =
    Time_zero
  | Backend_time nat
  | Metadata_time "8 word list"
  | System_clock_now

text \<open>\<open>platform::stream_profile\<close>: the transport-level profile.\<close>

record platform_stream_profile =
  pp_width :: "32 word"
  pp_height :: "32 word"
  pp_fps :: "32 word"
  pp_format :: "32 word"

text \<open>
  A stream profile. \<open>sp_video\<close> holds the dimensions when the object is a
  \<open>video_stream_profile\<close> (what \<open>As<video_stream_profile>\<close> finds), \<open>sp_motion\<close> tells
  whether it is a \<open>motion_stream_profile\<close>. Widths, heights and bit counts are
  \<open>int\<close> variables in the source that hold unsigned values; they are natural numbers here
  and the overflow of \<open>int\<close> arithmetic is not modelled.
\<close>

record stream_profile =
  sp_stream_type :: rs2_stream
  sp_stream_index :: int
  sp_format :: rs2_format
  sp_framerate :: "32 word"
  sp_video :: "(nat \<times> nat) option"
  sp_motion :: bool
  sp_backend_profile :: platform_stream_profile

text \<open>The exceptions the two files throw or catch, and what the transport may throw.\<close>

datatype error =
    wrong_api_call_sequence_exception string
  | invalid_value_exception string
  | recoverable_exception string
  | runtime_error string
  | backend_exception string
  | non_std_exception

fun what :: "error \<Rightarrow> string" where
  "what (wrong_api_call_sequence_exception m) = m"
| "what (invalid_value_exception m) = m"
| "what (recoverable_exception m) = m"
| "what (runtime_error m) = m"
| "what (backend_exception m) = m"
| "what non_std_exception = []"

text \<open>\<open>catch (const std::exception &)\<close> matches all but a foreign exception.\<close>

fun is_std_exception :: "error \<Rightarrow> bool" where
  "is_std_exception non_std_exception = False"
| "is_std_exception _ = True"

text \<open>\<open>catch (const std::runtime_error &)\<close>: the library's own exception classes derive
  from \<open>std::exception\<close>, not from \<open>std::runtime_error\<close>.\<close>

fun is_runtime_error :: "error \<Rightarrow> bool" where
  "is_runtime_error (runtime_error m) = True"
| "is_runtime_error _ = False"

text \<open>
  How a call ends: it returns, it throws, or it runs into undefined behaviour of C++
  (a null pointer dereferenced, a read past a buffer).
\<close>

datatype outcome = Returned | Threw error | Undefined_behaviour string

datatype severity = LOG_DEBUG | LOG_INFO | LOG_WARNING | LOG_ERROR

type_synonym log_line = "severity \<times> string"

section \<open>Frames and the frame source (source.cpp)\<close>

record frame_additional_data =
  ad_timestamp :: rs2_time_t
  ad_frame_number :: nat
  ad_system_time :: rs2_time_t
  ad_metadata_size :: "8 word"
  ad_metadata_blob :: "byte list"
  ad_backend_timestamp :: rs2_time_t
  ad_last_timestamp :: rs2_time_t
  ad_last_frame_number :: nat
  ad_raw_size :: "32 word"

text \<open>
  A frame object. \<open>fr_owner\<close> is \<open>get_owner() != nullptr\<close>: the frame belongs to an
  archive. \<open>fr_video\<close> is what \<open>video_frame::assign\<close> stores (width, height, stride, bpp).
\<close>

record frame =
  fr_type :: rs2_extension
  fr_data :: "byte list"
  fr_additional_data :: frame_additional_data
  fr_stream :: "stream_profile option"
  fr_timestamp_domain :: rs2_timestamp_domain
  fr_video :: "(nat \<times> nat \<times> nat \<times> nat) option"
  fr_owner :: bool

datatype frame_callback = Frame_callback nat

datatype rs2_frame_metadata_value =
    RS2_FRAME_METADATA_TIME_OF_ARRIVAL | RS2_FRAME_METADATA_BACKEND_TIMESTAMP
  | RS2_FRAME_METADATA_RAW_FRAME_SIZE

type_synonym metadata_parser_map = "rs2_frame_metadata_value list"

type_synonym sensor_ref = nat

text \<open>
  Modelled from the spec: the archive class (make_archive, alloc_and_track, flush) is
  defined outside the two source files. The spec gives a pool per frame type that bounds
  the number of live frames by the published queue size and answers an allocation beyond
  the bound with "no frame"; flush drains the pool.
\<close>

record archive =
  ar_type :: rs2_extension
  ar_published :: nat
  ar_sensor :: "sensor_ref option"
  ar_metadata_parsers :: "metadata_parser_map option"

definition make_archive ::
  "rs2_extension \<Rightarrow> metadata_parser_map option \<Rightarrow> archive" where
  "make_archive type parsers =
     \<lparr>ar_type = type, ar_published = 0, ar_sensor = None, ar_metadata_parsers = parsers\<rparr>"

definition alloc_and_track ::
  "32 word \<Rightarrow> archive \<Rightarrow> nat \<Rightarrow> frame_additional_data \<Rightarrow> bool \<Rightarrow> frame option \<times> archive" where
  "alloc_and_track max_size ar sz additional_data requires_memory =
     (if unat max_size \<le> ar_published ar then (None, ar)
      else (Some \<lparr>fr_type = ar_type ar,
                  fr_data = (if requires_memory then replicate sz 0 else []),
                  fr_additional_data = additional_data,
                  fr_stream = None,
                  fr_timestamp_domain = RS2_TIMESTAMP_DOMAIN_HARDWARE_CLOCK,
                  fr_video = None,
                  fr_owner = True\<rparr>,
            ar\<lparr>ar_published := Suc (ar_published ar)\<rparr>))"

definition archive_flush :: "archive \<Rightarrow> archive" where
  "archive_flush ar = ar\<lparr>ar_published := 0\<rparr>"

text \<open>
  \<open>frame_source\<close>. \<open>_archive\<close> is a \<open>std::map\<close> from the frame type to a shared pointer,
  which \<open>reset\<close> makes null without erasing the key: an association list of optional
  archives.
\<close>

record frame_source =
  fs_callback :: "frame_callback option"
  fs_archive :: "(rs2_extension \<times> archive option) list"
  fs_max_publish_list_size :: "32 word"
  fs_metadata_parsers :: "metadata_parser_map option"

definition new_frame_source :: "32 word \<Rightarrow> frame_source" where
  "new_frame_source max_publish_list_size =
     \<lparr>fs_callback = None, fs_archive = [],
      fs_max_publish_list_size = max_publish_list_size,
      fs_metadata_parsers = None\<rparr>"

definition supported :: "rs2_extension list" where
  "supported = [RS2_EXTENSION_VIDEO_FRAME, RS2_EXTENSION_COMPOSITE_FRAME,
                RS2_EXTENSION_POINTS, RS2_EXTENSION_DEPTH_FRAME,
                RS2_EXTENSION_DISPARITY_FRAME, RS2_EXTENSION_MOTION_FRAME,
                RS2_EXTENSION_POSE_FRAME]"

definition init :: "metadata_parser_map option \<Rightarrow> frame_source \<Rightarrow> frame_source" where
  "init metadata_parsers src =
     src\<lparr>fs_archive :=
            fold (\<lambda>type ars. AList.update type (Some (make_archive type metadata_parsers)) ars)
                 supported (fs_archive src),
         fs_metadata_parsers := metadata_parsers\<rparr>"

definition reset :: "frame_source \<Rightarrow> frame_source" where
  "reset src =
     src\<lparr>fs_callback := None,
         fs_archive := map (\<lambda>kvp. (fst kvp, None)) (fs_archive src),
         fs_metadata_parsers := None\<rparr>"

text \<open>
  \<open>set_sensor\<close> calls through every archive pointer. Both callers run it right after
  \<open>init\<close>, which has filled every entry; a null entry is left as it is here.
\<close>

definition set_sensor :: "sensor_ref \<Rightarrow> frame_source \<Rightarrow> frame_source" where
  "set_sensor s src =
     src\<lparr>fs_archive := map (\<lambda>a. (fst a, map_option (\<lambda>ar. ar\<lparr>ar_sensor := Some s\<rparr>) (snd a)))
                           (fs_archive src)\<rparr>"

definition set_callback :: "frame_callback option \<Rightarrow> frame_source \<Rightarrow> frame_source" where
  "set_callback callback src = src\<lparr>fs_callback := callback\<rparr>"

definition get_callback :: "frame_source \<Rightarrow> frame_callback option" where
  "get_callback src = fs_callback src"

text \<open>
  \<open>alloc_frame\<close>: a type without an entry throws; an entry whose pointer is null is
  dereferenced; otherwise the archive allocates.
\<close>

definition alloc_frame ::
  "frame_source \<Rightarrow> rs2_extension \<Rightarrow> nat \<Rightarrow> frame_additional_data \<Rightarrow> bool
     \<Rightarrow> outcome \<times> frame option \<times> frame_source" where
  "alloc_frame src type sz additional_data requires_memory =
     (case map_of (fs_archive src) type of
        None \<Rightarrow>
          (Threw (wrong_api_call_sequence_exception ''Requested frame type is not supported!''),
           None, src)
      | Some None \<Rightarrow> (Undefined_behaviour ''null archive dereferenced'', None, src)
      | Some (Some ar) \<Rightarrow>
          (case alloc_and_track (fs_max_publish_list_size src) ar sz additional_data
                  requires_memory of
             (fr, ar') \<Rightarrow>
               (Returned, fr, src\<lparr>fs_archive := AList.update type (Some ar') (fs_archive src)\<rparr>)))"

text \<open>
  What the application's handler does with a frame is a parameter of the model: it
  returns, throws a \<open>std::exception\<close> with a message, or throws something else.
\<close>

datatype handler_result = Handler_returns | Handler_throws_std string | Handler_throws_other

type_synonym user_handlers = "frame_callback \<Rightarrow> frame \<Rightarrow> handler_result"

text \<open>
  Effects on the world outside the sensor object, in the order they happen: calls to the
  transport, to the timestamp readers and to the observers, stores to the streaming flag
  that device threads read, the release of a frame from its holder and the call of the
  application's handler.
\<close>

datatype power_state = D0 | D3

datatype reader_id = Uvc_timestamp_reader | Hid_iio_timestamp_reader | Custom_hid_timestamp_reader

datatype event =
    Dev_set_power_state power_state
  | Dev_init_xu nat
  | Dev_probe_and_commit platform_stream_profile
  | Dev_close platform_stream_profile
  | Dev_stream_on
  | Dev_start_callbacks
  | Dev_stop_callbacks
  | Hid_open "(string \<times> 32 word) list"
  | Hid_close
  | Hid_start_capture
  | Hid_stop_capture
  | Timestamp_reader_reset reader_id
  | Raise_on_before_streaming_changes bool
  | Enable_time_diff_keeper bool
  | Store_is_streaming bool
  | On_open "platform_stream_profile list"
  | Continuation
  | Archive_flush rs2_extension
  | Swap_frame_out frame
  | On_frame frame_callback frame

text \<open>
  \<open>frame_source::flush\<close> calls \<open>flush\<close> on every archive whose pointer is not null.
  The archive is outside the source files: each call is an effect, made in the order of
  the map, and it drains the pool of the model.
\<close>

definition flush :: "frame_source \<Rightarrow> event list \<times> frame_source" where
  "flush src =
     (map (\<lambda>kvp. Archive_flush (fst kvp)) (filter (\<lambda>kvp. snd kvp \<noteq> None) (fs_archive src)),
      src\<lparr>fs_archive := map (\<lambda>kvp. (fst kvp, map_option archive_flush (snd kvp)))
                            (fs_archive src)\<rparr>)"

text \<open>
  \<open>invoke_callback\<close>. The holder is a \<open>frame_holder\<close> passed by value; the result gives
  what it still holds when the function ends, the effects and the log lines.
\<close>

definition invoke_callback ::
  "user_handlers \<Rightarrow> frame_source \<Rightarrow> frame option
     \<Rightarrow> outcome \<times> frame option \<times> event list \<times> log_line list" where
  "invoke_callback handlers src holder =
     (case holder of
        None \<Rightarrow> (Returned, holder, [], [])
      | Some f \<Rightarrow>
          if \<not> fr_owner f then (Returned, holder, [], [])
          else (case fs_callback src of
                  None \<Rightarrow> (Returned, holder, [], [])
                | Some callback \<Rightarrow>
                    (case handlers callback f of
                       Handler_returns \<Rightarrow>
                         (Returned, None, [Swap_frame_out f, On_frame callback f], [])
                     | Handler_throws_std msg \<Rightarrow>
                         (Returned, None, [Swap_frame_out f, On_frame callback f],
                          [(LOG_ERROR, ''Exception was thrown during user callback: '' @ msg)])
                     | Handler_throws_other \<Rightarrow>
                         (Returned, None, [Swap_frame_out f, On_frame callback f],
                          [(LOG_ERROR, ''Exception was thrown during user callback!'')]))))"

fun stream_to_frame_types :: "rs2_stream \<Rightarrow> error + rs2_extension" where
  "stream_to_frame_types RS2_STREAM_DEPTH = Inr RS2_EXTENSION_DEPTH_FRAME"
| "stream_to_frame_types RS2_STREAM_ACCEL = Inr RS2_EXTENSION_MOTION_FRAME"
| "stream_to_frame_types RS2_STREAM_GYRO = Inr RS2_EXTENSION_MOTION_FRAME"
| "stream_to_frame_types RS2_STREAM_COLOR = Inr RS2_EXTENSION_VIDEO_FRAME"
| "stream_to_frame_types RS2_STREAM_INFRARED = Inr RS2_EXTENSION_VIDEO_FRAME"
| "stream_to_frame_types RS2_STREAM_FISHEYE = Inr RS2_EXTENSION_VIDEO_FRAME"
| "stream_to_frame_types RS2_STREAM_GPIO = Inr RS2_EXTENSION_VIDEO_FRAME"
| "stream_to_frame_types RS2_STREAM_POSE = Inr RS2_EXTENSION_VIDEO_FRAME"
| "stream_to_frame_types RS2_STREAM_CONFIDENCE = Inr RS2_EXTENSION_VIDEO_FRAME"
| "stream_to_frame_types RS2_STREAM_ANY =
     Inl (runtime_error ''could not find matching extension with stream type'')"

section \<open>The sensor base (sensor.cpp)\<close>

datatype rs2_option =
    RS2_OPTION_FRAMES_QUEUE_SIZE | RS2_OPTION_ERROR_POLLING_ENABLED
  | RS2_OPTION_STREAM_FILTER | RS2_OPTION_STREAM_FORMAT_FILTER

text \<open>Whose option object an entry of the options container points to.\<close>

datatype option_ref = Sensor_option | Processing_block_option nat

text \<open>
  The fields of \<open>sensor_base\<close> that the modelled functions use, the effects so far
  (\<open>trace\<close>) and the lines logged. \<open>owner_is_global_time_interface\<close> is what
  \<open>Is<global_time_interface>(_owner)\<close> finds.
\<close>

record sensor_base =
  is_streaming :: bool
  is_opened :: bool
  active_profiles :: "stream_profile list"
  source :: frame_source
  metadata_parsers :: metadata_parser_map
  source_owner :: sensor_ref
  owner_is_global_time_interface :: bool
  fourcc_to_rs2_format_map :: "(32 word \<times> rs2_format) list"
  options :: "(rs2_option \<times> option_ref) list"
  trace :: "event list"
  log_lines :: "log_line list"

text \<open>
  The transport (the UVC or HID device object) is outside the source files. It is a
  parameter: from the effects so far and the call being made it tells whether the call
  returns (\<open>None\<close>) or throws.
\<close>

type_synonym device = "event list \<Rightarrow> event \<Rightarrow> error option"

definition emit :: "event \<Rightarrow> 'a sensor_base_scheme \<Rightarrow> 'a sensor_base_scheme" where
  "emit e s = s\<lparr>trace := trace s @ [e]\<rparr>"

definition write_log :: "severity \<Rightarrow> string \<Rightarrow> 'a sensor_base_scheme \<Rightarrow> 'a sensor_base_scheme" where
  "write_log sev msg s = s\<lparr>log_lines := log_lines s @ [(sev, msg)]\<rparr>"

definition call ::
  "device \<Rightarrow> event \<Rightarrow> 'a sensor_base_scheme \<Rightarrow> error option \<times> 'a sensor_base_scheme" where
  "call dev c s = (dev (trace s) c, emit c s)"

text \<open>A sequence of calls, left at the first one that throws.\<close>

fun call_all ::
  "device \<Rightarrow> event list \<Rightarrow> 'a sensor_base_scheme \<Rightarrow> error option \<times> 'a sensor_base_scheme" where
  "call_all dev [] s = (None, s)"
| "call_all dev (c # cs) s =
     (case call dev c s of
        (Some e, s') \<Rightarrow> (Some e, s')
      | (None, s') \<Rightarrow> call_all dev cs s')"

text \<open>A loop of \<open>try { call } catch (...) {}\<close>.\<close>

fun call_all_ignoring ::
  "device \<Rightarrow> event list \<Rightarrow> 'a sensor_base_scheme \<Rightarrow> 'a sensor_base_scheme" where
  "call_all_ignoring dev [] s = s"
| "call_all_ignoring dev (c # cs) s = call_all_ignoring dev cs (snd (call dev c s))"

text \<open>\<open>_source.flush()\<close> and \<open>_source.reset()\<close> on the sensor's frame source.\<close>

definition source_flush :: "'a sensor_base_scheme \<Rightarrow> 'a sensor_base_scheme" where
  "source_flush s =
     (case flush (source s) of
        (events, src) \<Rightarrow> s\<lparr>source := src, trace := trace s @ events\<rparr>)"

definition source_reset :: "'a sensor_base_scheme \<Rightarrow> 'a sensor_base_scheme" where
  "source_reset s = s\<lparr>source := reset (source s)\<rparr>"

definition get_frames_callback :: "'a sensor_base_scheme \<Rightarrow> frame_callback option" where
  "get_frames_callback s = get_callback (source s)"

definition get_active_streams :: "'a sensor_base_scheme \<Rightarrow> stream_profile list" where
  "get_active_streams s = active_profiles s"

definition set_active_streams ::
  "stream_profile list \<Rightarrow> 'a sensor_base_scheme \<Rightarrow> 'a sensor_base_scheme" where
  "set_active_streams requests s = s\<lparr>active_profiles := requests\<rparr>"

definition raise_on_before_streaming_changes ::
  "bool \<Rightarrow> 'a sensor_base_scheme \<Rightarrow> 'a sensor_base_scheme" where
  "raise_on_before_streaming_changes streaming s =
     emit (Raise_on_before_streaming_changes streaming) s"

definition fourcc_to_rs2_format :: "'a sensor_base_scheme \<Rightarrow> 32 word \<Rightarrow> rs2_format" where
  "fourcc_to_rs2_format s fourcc_format =
     (case map_of (fourcc_to_rs2_format_map s) fourcc_format of
        Some fmt \<Rightarrow> fmt
      | None \<Rightarrow> RS2_FORMAT_ANY)"

definition supports_option :: "'a sensor_base_scheme \<Rightarrow> rs2_option \<Rightarrow> bool" where
  "supports_option s opt_id = (map_of (options s) opt_id \<noteq> None)"

definition register_option ::
  "rs2_option \<Rightarrow> option_ref \<Rightarrow> 'a sensor_base_scheme \<Rightarrow> 'a sensor_base_scheme" where
  "register_option opt_id opt s = s\<lparr>options := AList.update opt_id opt (options s)\<rparr>"

text \<open>The store to the atomic streaming flag, which the device callbacks read.\<close>

definition store_is_streaming :: "bool \<Rightarrow> 'a sensor_base_scheme \<Rightarrow> 'a sensor_base_scheme" where
  "store_is_streaming b s = emit (Store_is_streaming b) (s\<lparr>is_streaming := b\<rparr>)"

subsection \<open>The timestamp reader of the file\<close>

text \<open>
  \<open>iio_hid_timestamp_reader\<close>: \<open>counter\<close> has \<open>sensors\<close> entries. A timestamp read from
  the metadata is kept as the blob it is decoded from.
\<close>

record timestamp_reader =
  started :: bool
  counter :: "nat list"

definition sensors :: nat where
  "sensors = 2"

definition iio_reset :: "timestamp_reader \<Rightarrow> timestamp_reader" where
  "iio_reset r = r\<lparr>started := False, counter := map (\<lambda>i. 0) (counter r)\<rparr>"

definition new_iio_hid_timestamp_reader :: timestamp_reader where
  "new_iio_hid_timestamp_reader = iio_reset \<lparr>started = False, counter = replicate sensors 0\<rparr>"

definition has_metadata :: "frame \<Rightarrow> bool" where
  "has_metadata f = (0 < ad_metadata_size (fr_additional_data f))"

definition get_frame_timestamp ::
  "timestamp_reader \<Rightarrow> frame \<Rightarrow> rs2_time_t \<times> timestamp_reader \<times> log_line list" where
  "get_frame_timestamp r f =
     (if has_metadata f then (Metadata_time (ad_metadata_blob (fr_additional_data f)), r, [])
      else if \<not> started r
        then (System_clock_now, r\<lparr>started := True\<rparr>,
              [(LOG_WARNING, ''HID timestamp not found, switching to Host timestamps.'')])
        else (System_clock_now, r, []))"

text \<open>\<open>++counter[index]\<close>; the frame's stream is set by the caller.\<close>

definition get_frame_counter :: "timestamp_reader \<Rightarrow> frame \<Rightarrow> nat \<times> timestamp_reader" where
  "get_frame_counter r f =
     (let index = (if map_option sp_stream_type (fr_stream f) = Some RS2_STREAM_GYRO
                   then 1 else 0 :: nat);
          n = Suc (counter r ! index)
      in (n, r\<lparr>counter := (counter r)[index := n]\<rparr>))"

definition get_frame_timestamp_domain :: "frame \<Rightarrow> rs2_timestamp_domain" where
  "get_frame_timestamp_domain f =
     (if has_metadata f then RS2_TIMESTAMP_DOMAIN_HARDWARE_CLOCK
      else RS2_TIMESTAMP_DOMAIN_SYSTEM_TIME)"

section \<open>The UVC sensor\<close>

text \<open>
  \<open>power\<close> tells whether \<open>_power\<close> holds a power object; \<open>user_count\<close> is the atomic
  \<open>int\<close> (its wrap-around is not modelled); \<open>on_open_set\<close>
  tells whether the \<open>_on_open\<close> hook is installed.
\<close>

record uvc_sensor = sensor_base +
  internal_config :: "platform_stream_profile list"
  on_open_set :: bool
  power :: bool
  user_count :: int
  xus :: "nat list"
  uvc_timestamp_reader :: timestamp_reader

text \<open>
  Modelled from the spec: the timestamp reader class of a UVC sensor is handed in by the
  device and is outside the source files; the spec gives its contract (timestamp, frame
  counter, domain, reset). The reader that sensor.cpp defines stands for it.
\<close>

definition uvc_timestamp_reader_reset :: "uvc_sensor \<Rightarrow> uvc_sensor" where
  "uvc_timestamp_reader_reset s =
     emit (Timestamp_reader_reset Uvc_timestamp_reader)
          (s\<lparr>uvc_timestamp_reader := iio_reset (uvc_timestamp_reader s)\<rparr>)"

definition acquire_power :: "device \<Rightarrow> uvc_sensor \<Rightarrow> error option \<times> uvc_sensor" where
  "acquire_power dev s =
     (let old_count = user_count s;
          s1 = s\<lparr>user_count := old_count + 1\<rparr>
      in if old_count = 0
         then (case call_all dev (Dev_set_power_state D0 # map Dev_init_xu (xus s1)) s1 of
                 (Some e, s2) \<Rightarrow>
                   (Some e,
                    write_log LOG_ERROR
                      (if is_std_exception e then ''acquire_power failed: '' @ what e
                       else ''acquire_power failed'')
                      (s2\<lparr>user_count := user_count s2 - 1\<rparr>))
               | (None, s2) \<Rightarrow> (None, s2))
         else (None, s1))"

definition release_power :: "device \<Rightarrow> uvc_sensor \<Rightarrow> error option \<times> uvc_sensor" where
  "release_power dev s =
     (let old_count = user_count s;
          s1 = s\<lparr>user_count := old_count - 1\<rparr>
      in if old_count = 1
         then (case call dev (Dev_set_power_state D3) s1 of
                 (Some e, s2) \<Rightarrow>
                   (None,
                    write_log LOG_ERROR
                      (if is_std_exception e then ''release_power failed: '' @ what e
                       else ''release_power failed'')
                      s2)
               | (None, s2) \<Rightarrow> (None, s2))
         else (None, s1))"

text \<open>\<open>_power.reset()\<close>: the destructor of a held power object releases the power.\<close>

definition power_reset :: "device \<Rightarrow> uvc_sensor \<Rightarrow> uvc_sensor" where
  "power_reset dev s =
     (if power s then (snd (release_power dev s))\<lparr>power := False\<rparr> else s)"

definition verify_supported_requests :: "stream_profile list \<Rightarrow> error option" where
  "verify_supported_requests requests =
     (let requests_map =
            fold (\<lambda>req m. AList.update (sp_stream_type req) (sp_framerate req) m) requests [];
          gyro_fps = (case map_of requests_map RS2_STREAM_GYRO of
                        Some fps \<Rightarrow> fps | None \<Rightarrow> (- 1 :: 32 word));
          accel_fps = (case map_of requests_map RS2_STREAM_ACCEL of
                         Some fps \<Rightarrow> fps | None \<Rightarrow> (- 1 :: 32 word))
      in if length requests_map < length requests
         then Some (runtime_error ''Wrong configuration requested'')
         else if gyro_fps \<noteq> - 1 \<and> accel_fps \<noteq> - 1 \<and> gyro_fps \<noteq> accel_fps
         then Some (runtime_error
                (''Wrong configuration requested - GYRO and ACCEL streams'' @ [CHR 0x27]
                 @ '' fps to be equal for this device''))
         else None)"

definition reset_streaming :: "uvc_sensor \<Rightarrow> uvc_sensor" where
  "reset_streaming s =
     uvc_timestamp_reader_reset (source_reset (source_flush s))"

text \<open>
  The loop of \<open>open\<close> over the requests. A commit that throws runs the handler: it closes
  the profiles committed so far, one call after the other with nothing caught around
  them, and rethrows; an exception of one of these calls leaves the handler at once.
\<close>

fun commit_profiles ::
  "device \<Rightarrow> stream_profile list \<Rightarrow> platform_stream_profile list \<Rightarrow> uvc_sensor
     \<Rightarrow> error option \<times> platform_stream_profile list \<times> uvc_sensor" where
  "commit_profiles dev [] commited s = (None, commited, s)"
| "commit_profiles dev (req_profile # rest) commited s =
     (case call dev (Dev_probe_and_commit (sp_backend_profile req_profile)) s of
        (Some e, s1) \<Rightarrow>
          (case call_all dev (map Dev_close commited) s1 of
             (Some e', s2) \<Rightarrow> (Some e', commited, s2)
           | (None, s2) \<Rightarrow> (Some e, commited, s2))
      | (None, s1) \<Rightarrow>
          commit_profiles dev rest (commited @ [sp_backend_profile req_profile]) s1)"

text \<open>
  Modelled from the spec: \<open>rs2_format_to_string\<close> is a table outside the source files;
  the spec only names formats, and a format prints as its name here.
\<close>

fun rs2_format_to_string :: "rs2_format \<Rightarrow> string" where
  "rs2_format_to_string RS2_FORMAT_ANY = ''ANY''"
| "rs2_format_to_string RS2_FORMAT_Z16 = ''Z16''"
| "rs2_format_to_string RS2_FORMAT_RGB8 = ''RGB8''"
| "rs2_format_to_string RS2_FORMAT_Y8 = ''Y8''"
| "rs2_format_to_string RS2_FORMAT_Y16 = ''Y16''"
| "rs2_format_to_string RS2_FORMAT_YUYV = ''YUYV''"
| "rs2_format_to_string RS2_FORMAT_MJPEG = ''MJPEG''"
| "rs2_format_to_string RS2_FORMAT_Z16H = ''Z16H''"
| "rs2_format_to_string RS2_FORMAT_Y12I = ''Y12I''"
| "rs2_format_to_string RS2_FORMAT_MOTION_XYZ32F = ''MOTION_XYZ32F''"
| "rs2_format_to_string RS2_FORMAT_RAW8 = ''RAW8''"

definition endl :: string where
  "endl = [CHR 0x0A]"

definition tab :: string where
  "tab = [CHR 0x09]"

definition stream_on_error_msg :: "uvc_sensor \<Rightarrow> string" where
  "stream_on_error_msg s =
     tab @ ''Formats: '' @ endl
     @ concat (map (\<lambda>profile. tab @ '' ''
                      @ rs2_format_to_string (fourcc_to_rs2_format s (pp_format profile)) @ endl)
                   (internal_config s))
     @ endl"

text \<open>
  \<open>uvc_sensor::open\<close>. The local \<open>on\<close> holds the power until it is moved into
  \<open>_power\<close>; when an exception leaves the function before that, its destructor releases
  the power.
\<close>

definition uvc_open ::
  "device \<Rightarrow> stream_profile list \<Rightarrow> uvc_sensor \<Rightarrow> error option \<times> uvc_sensor" where
  "uvc_open dev requests s =
     (if is_streaming s
      then (Some (wrong_api_call_sequence_exception
                    ''open(...) failed. UVC device is streaming!''), s)
      else if is_opened s
      then (Some (wrong_api_call_sequence_exception
                    ''open(...) failed. UVC device is already opened!''), s)
      else
        (case acquire_power dev s of
           (Some e, s1) \<Rightarrow> (Some e, s1)
         | (None, s1) \<Rightarrow>
             (let s2 = s1\<lparr>source := set_sensor (source_owner s1)
                                       (init (Some (metadata_parsers s1)) (source s1))\<rparr>
              in case verify_supported_requests requests of
                   Some e \<Rightarrow> (Some e, snd (release_power dev s2))
                 | None \<Rightarrow>
                     (case commit_profiles dev requests [] s2 of
                        (Some e, commited, s3) \<Rightarrow> (Some e, snd (release_power dev s3))
                      | (None, commited, s3) \<Rightarrow>
                          (let s4 = s3\<lparr>internal_config := commited\<rparr>;
                               s5 = (if on_open_set s4 then emit (On_open commited) s4 else s4);
                               s6 = s5\<lparr>power := True, is_opened := True\<rparr>
                           in case call dev Dev_stream_on s6 of
                                (Some e, s7) \<Rightarrow>
                                  (let s8 = call_all_ignoring dev
                                              (map Dev_close (internal_config s7)) s7;
                                       s9 = reset_streaming s8;
                                       s10 = power_reset dev s9
                                   in (Some (runtime_error (stream_on_error_msg s7)),
                                       s10\<lparr>is_opened := False\<rparr>))
                              | (None, s7) \<Rightarrow>
                                  (let s8 = (if owner_is_global_time_interface s7
                                             then emit (Enable_time_diff_keeper True) s7
                                             else s7)
                                   in (None, set_active_streams requests s8)))))))"

definition uvc_close :: "device \<Rightarrow> uvc_sensor \<Rightarrow> error option \<times> uvc_sensor" where
  "uvc_close dev s =
     (if is_streaming s
      then (Some (wrong_api_call_sequence_exception
                    ''close() failed. UVC device is streaming!''), s)
      else if \<not> is_opened s
      then (Some (wrong_api_call_sequence_exception
                    ''close() failed. UVC device was not opened!''), s)
      else
        (let s1 = call_all_ignoring dev (map Dev_close (internal_config s)) s;
             s2 = reset_streaming s1;
             s3 = (if owner_is_global_time_interface s2
                   then emit (Enable_time_diff_keeper False) s2 else s2);
             s4 = power_reset dev s3
         in (None, set_active_streams [] (s4\<lparr>is_opened := False\<rparr>))))"

definition uvc_start ::
  "device \<Rightarrow> frame_callback option \<Rightarrow> uvc_sensor \<Rightarrow> error option \<times> uvc_sensor" where
  "uvc_start dev callback s =
     (if is_streaming s
      then (Some (wrong_api_call_sequence_exception
                    ''start_streaming(...) failed. UVC device is already streaming!''), s)
      else if \<not> is_opened s
      then (Some (wrong_api_call_sequence_exception
                    ''start_streaming(...) failed. UVC device was not opened!''), s)
      else
        (let s1 = raise_on_before_streaming_changes True s;
             s2 = s1\<lparr>source := set_callback callback (source s1)\<rparr>;
             s3 = store_is_streaming True s2
         in call dev Dev_start_callbacks s3))"

definition uvc_stop :: "device \<Rightarrow> uvc_sensor \<Rightarrow> error option \<times> uvc_sensor" where
  "uvc_stop dev s =
     (if \<not> is_streaming s
      then (Some (wrong_api_call_sequence_exception
                    ''stop_streaming() failed. UVC device is not streaming!''), s)
      else
        (let s1 = store_is_streaming False s
         in case call dev Dev_stop_callbacks s1 of
              (Some e, s2) \<Rightarrow> (Some e, s2)
            | (None, s2) \<Rightarrow>
                (None, raise_on_before_streaming_changes False (uvc_timestamp_reader_reset s2))))"

section \<open>The HID sensor\<close>

text \<open>
  \<open>sensor_name_and_hid_profiles\<close> keeps, of each profile given to the constructor, the
  stream that \<open>rs2_stream_to_sensor_name\<close> reads. \<open>configured_profiles\<close> is the
  \<open>std::map\<close> from a sensor name to a shared pointer (null after \<open>operator[]\<close> found no
  entry). \<open>is_configured_stream\<close> lists the indices of the \<open>vector<bool>\<close> that are set.
\<close>

record hid_sensor = sensor_base +
  sensor_name_and_hid_profiles :: "(string \<times> rs2_stream) list"
  fps_and_sampling_frequency_per_rs2_stream :: "(rs2_stream \<times> (32 word \<times> 32 word) list) list"
  configured_profiles :: "(string \<times> stream_profile option) list"
  is_configured_stream :: "rs2_stream list"
  hid_iio_timestamp_reader :: timestamp_reader
  custom_hid_timestamp_reader :: timestamp_reader

fun rs2_stream_to_sensor_name :: "(string \<times> rs2_stream) list \<Rightarrow> rs2_stream \<Rightarrow> error + string" where
  "rs2_stream_to_sensor_name [] stream = Inl (invalid_value_exception ''rs2_stream not found!'')"
| "rs2_stream_to_sensor_name (elem # rest) stream =
     (if stream = snd elem then Inr (fst elem) else rs2_stream_to_sensor_name rest stream)"

definition fps_to_sampling_frequency :: "hid_sensor \<Rightarrow> rs2_stream \<Rightarrow> 32 word \<Rightarrow> 32 word" where
  "fps_to_sampling_frequency s stream fps =
     (case map_of (fps_and_sampling_frequency_per_rs2_stream s) stream of
        None \<Rightarrow> fps
      | Some fps_mapping \<Rightarrow>
          (case map_of fps_mapping fps of
             Some frequency \<Rightarrow> frequency
           | None \<Rightarrow> fps))"

text \<open>\<open>std::map::insert\<close> keeps an entry that is already there.\<close>

definition map_insert :: "'k \<Rightarrow> 'v \<Rightarrow> ('k \<times> 'v) list \<Rightarrow> ('k \<times> 'v) list" where
  "map_insert k v m = (if map_of m k = None then m @ [(k, v)] else m)"

text \<open>The loop of \<open>hid_sensor::open\<close> over the requests.\<close>

fun configure_requests ::
  "stream_profile list \<Rightarrow> (string \<times> 32 word) list \<Rightarrow> hid_sensor
     \<Rightarrow> error option \<times> (string \<times> 32 word) list \<times> hid_sensor" where
  "configure_requests [] configured_hid_profiles s = (None, configured_hid_profiles, s)"
| "configure_requests (request # rest) configured_hid_profiles s =
     (case rs2_stream_to_sensor_name (sensor_name_and_hid_profiles s) (sp_stream_type request) of
        Inl e \<Rightarrow> (Some e, configured_hid_profiles, s)
      | Inr sensor_name \<Rightarrow>
          configure_requests rest
            (configured_hid_profiles
             @ [(sensor_name,
                 fps_to_sampling_frequency s (sp_stream_type request) (sp_framerate request))])
            (s\<lparr>configured_profiles :=
                  map_insert sensor_name (Some request) (configured_profiles s),
               is_configured_stream :=
                  List.insert (sp_stream_type request) (is_configured_stream s)\<rparr>))"

definition hid_open ::
  "device \<Rightarrow> stream_profile list \<Rightarrow> hid_sensor \<Rightarrow> error option \<times> hid_sensor" where
  "hid_open dev requests s =
     (if is_streaming s
      then (Some (wrong_api_call_sequence_exception
                    ''open(...) failed. Hid device is streaming!''), s)
      else if is_opened s
      then (Some (wrong_api_call_sequence_exception ''Hid device is already opened!''), s)
      else
        (case configure_requests requests [] s of
           (Some e, configured_hid_profiles, s1) \<Rightarrow> (Some e, s1)
         | (None, configured_hid_profiles, s1) \<Rightarrow>
             (case call dev (Hid_open configured_hid_profiles) s1 of
                (Some e, s2) \<Rightarrow> (Some e, s2)
              | (None, s2) \<Rightarrow>
                  (let s3 = (if owner_is_global_time_interface s2
                             then emit (Enable_time_diff_keeper True) s2 else s2)
                   in (None, set_active_streams requests (s3\<lparr>is_opened := True\<rparr>))))))"

definition hid_close :: "device \<Rightarrow> hid_sensor \<Rightarrow> error option \<times> hid_sensor" where
  "hid_close dev s =
     (if is_streaming s
      then (Some (wrong_api_call_sequence_exception
                    ''close() failed. Hid device is streaming!''), s)
      else if \<not> is_opened s
      then (Some (wrong_api_call_sequence_exception
                    ''close() failed. Hid device was not opened!''), s)
      else
        (case call dev Hid_close s of
           (Some e, s1) \<Rightarrow> (Some e, s1)
         | (None, s1) \<Rightarrow>
             (let s2 = s1\<lparr>configured_profiles := [], is_configured_stream := [],
                          is_opened := False\<rparr>;
                  s3 = (if owner_is_global_time_interface s2
                        then emit (Enable_time_diff_keeper False) s2 else s2)
              in (None, set_active_streams [] s3))))"

text \<open>
  \<open>hid_sensor::start\<close>: the capture is started first and the streaming flag is stored
  after \<open>start_capture\<close> has returned.
\<close>

definition hid_start ::
  "device \<Rightarrow> frame_callback option \<Rightarrow> hid_sensor \<Rightarrow> error option \<times> hid_sensor" where
  "hid_start dev callback s =
     (if is_streaming s
      then (Some (wrong_api_call_sequence_exception
                    ''start_streaming(...) failed. Hid device is already streaming!''), s)
      else if \<not> is_opened s
      then (Some (wrong_api_call_sequence_exception
                    ''start_streaming(...) failed. Hid device was not opened!''), s)
      else
        (let s1 = s\<lparr>source := set_sensor (source_owner s)
                                 (init (Some (metadata_parsers s))
                                    (set_callback callback (source s)))\<rparr>;
             s2 = raise_on_before_streaming_changes True s1
         in case call dev Hid_start_capture s2 of
              (Some e, s3) \<Rightarrow> (Some e, s3)
            | (None, s3) \<Rightarrow> (None, store_is_streaming True s3)))"

text \<open>
  Modelled from the spec: the class of the custom HID timestamp reader is outside the
  source files; its reset is the reset of the reader contract.
\<close>

definition hid_timestamp_readers_reset :: "hid_sensor \<Rightarrow> hid_sensor" where
  "hid_timestamp_readers_reset s =
     emit (Timestamp_reader_reset Custom_hid_timestamp_reader)
       (emit (Timestamp_reader_reset Hid_iio_timestamp_reader)
          (s\<lparr>hid_iio_timestamp_reader := iio_reset (hid_iio_timestamp_reader s),
             custom_hid_timestamp_reader := iio_reset (custom_hid_timestamp_reader s)\<rparr>))"

definition hid_stop :: "device \<Rightarrow> hid_sensor \<Rightarrow> error option \<times> hid_sensor" where
  "hid_stop dev s =
     (if \<not> is_streaming s
      then (Some (wrong_api_call_sequence_exception
                    ''stop_streaming() failed. Hid device is not streaming!''), s)
      else
        (case call dev Hid_stop_capture s of
           (Some e, s1) \<Rightarrow> (Some e, s1)
         | (None, s1) \<Rightarrow>
             (let s2 = store_is_streaming False s1;
                  s3 = source_reset (source_flush s2);
                  s4 = hid_timestamp_readers_reset s3
              in (None, raise_on_before_streaming_changes False s4))))"

section \<open>Frame production\<close>

text \<open>
  \<open>platform::frame_object\<close>. \<open>fo_pixels\<close> is the memory that the pointer \<open>pixels\<close> may be
  read at; \<open>fo_frame_size\<close> is the size the transport reports for it.
\<close>

record frame_object =
  fo_frame_size :: nat
  fo_metadata_size :: "8 word"
  fo_pixels :: "byte list"
  fo_metadata :: "byte list"
  fo_backend_time :: rs2_time_t

text \<open>
  Modelled from the spec: \<open>compute_frame_expected_size\<close> is declared outside the source
  files; the spec gives the expected payload as width*height*bpp/8.
\<close>

definition compute_frame_expected_size :: "nat \<Rightarrow> nat \<Rightarrow> nat \<Rightarrow> nat" where
  "compute_frame_expected_size width height bpp = (width * height * bpp) div 8"

text \<open>
  \<open>memcpy(dst, src, n)\<close> on two buffers of known extent: \<open>None\<close> when it would read or
  write outside one of them.
\<close>

definition memcpy :: "byte list \<Rightarrow> byte list \<Rightarrow> nat \<Rightarrow> byte list option" where
  "memcpy dst src n =
     (if n \<le> length src \<and> n \<le> length dst then Some (take n src @ drop n dst) else None)"

text \<open>
  \<open>align_width_to_64\<close>: one \<open>insert\<close> of the range \<open>[pix + start_index, pix + end_index)\<close>
  per row; \<open>None\<close> when the range leaves the buffer.
\<close>

definition copy_row :: "nat \<Rightarrow> nat \<Rightarrow> byte list \<Rightarrow> nat \<Rightarrow> byte list option" where
  "copy_row bytes_in_width actual_input_bytes_in_width pix j =
     (let start_index = j * actual_input_bytes_in_width;
          end_index = bytes_in_width + j * actual_input_bytes_in_width
      in if end_index \<le> length pix
         then Some (take (end_index - start_index) (drop start_index pix))
         else None)"

fun insert_rows :: "(nat \<Rightarrow> byte list option) \<Rightarrow> nat list \<Rightarrow> byte list \<Rightarrow> byte list option" where
  "insert_rows row [] pixels = Some pixels"
| "insert_rows row (j # js) pixels =
     (case row j of
        None \<Rightarrow> None
      | Some r \<Rightarrow> insert_rows row js (pixels @ r))"

definition align_width_to_64 :: "nat \<Rightarrow> nat \<Rightarrow> nat \<Rightarrow> byte list \<Rightarrow> byte list option" where
  "align_width_to_64 width height bpp pix =
     (let factor = drop_bit 3 bpp;
          bytes_in_width = width * factor;
          actual_input_bytes_in_width = ((bytes_in_width div 64) + 1) * 64
      in insert_rows (copy_row (width * factor) actual_input_bytes_in_width pix) [0..<height] [])"

text \<open>
  \<open>generate_frame_from_data\<close>, for a profile that is not null. The \<open>_metadata_modifier\<close>
  hook is not installed.
\<close>

definition generate_frame_from_data ::
  "(rs2_format \<Rightarrow> nat) \<Rightarrow> frame_object \<Rightarrow> timestamp_reader \<Rightarrow> rs2_time_t \<Rightarrow> nat \<Rightarrow> stream_profile
     \<Rightarrow> frame \<times> timestamp_reader \<times> log_line list" where
  "generate_frame_from_data get_image_bpp fo reader last_timestamp last_frame_number profile =
     (let width = (case sp_video profile of Some (w, h) \<Rightarrow> w | None \<Rightarrow> 0);
          height = (case sp_video profile of Some (w, h) \<Rightarrow> h | None \<Rightarrow> 0);
          bpp = get_image_bpp (sp_format profile);
          frame_size = compute_frame_expected_size width height bpp;
          additional_data =
            \<lparr>ad_timestamp = Time_zero, ad_frame_number = 0,
             ad_system_time = System_clock_now,
             ad_metadata_size = fo_metadata_size fo,
             ad_metadata_blob = fo_metadata fo,
             ad_backend_timestamp = fo_backend_time fo,
             ad_last_timestamp = last_timestamp,
             ad_last_frame_number = last_frame_number,
             ad_raw_size = of_nat frame_size\<rparr>;
          fr = \<lparr>fr_type = RS2_EXTENSION_UNKNOWN, fr_data = [],
                fr_additional_data = additional_data,
                fr_stream = Some profile,
                fr_timestamp_domain = RS2_TIMESTAMP_DOMAIN_HARDWARE_CLOCK,
                fr_video = None, fr_owner = False\<rparr>
      in case get_frame_timestamp reader fr of
           (timestamp, reader1, logs) \<Rightarrow>
             (case get_frame_counter reader1 fr of
                (frame_number, reader2) \<Rightarrow>
                  (fr\<lparr>fr_additional_data :=
                        additional_data\<lparr>ad_timestamp := timestamp,
                                        ad_last_frame_number := last_frame_number,
                                        ad_frame_number := frame_number\<rparr>\<rparr>,
                   reader2, logs)))"

text \<open>The variables a callback lambda captures by value and updates (\<open>mutable\<close>).\<close>

record frame_lambda =
  last_frame_number :: nat
  last_timestamp :: rs2_time_t

text \<open>
  The copy inside \<open>if (fh.frame)\<close> of the UVC frame callback. The two \<open>assert\<close>s on the
  sizes are compiled out of a release build and are not part of the model.
\<close>

definition copy_payload ::
  "nat \<Rightarrow> nat \<Rightarrow> nat \<Rightarrow> nat \<Rightarrow> rs2_format \<Rightarrow> frame_object \<Rightarrow> byte list \<Rightarrow> byte list option" where
  "copy_payload width height bpp expected_size format f frame_data =
     (if drop_bit 3 (width * bpp) mod 64 \<noteq> 0 \<and> expected_size < fo_frame_size f
      then (case align_width_to_64 width height bpp (fo_pixels f) of
              None \<Rightarrow> None
            | Some pixels \<Rightarrow> memcpy frame_data pixels expected_size)
      else (let expected_size' =
                  (if format = RS2_FORMAT_Y12I \<and> drop_bit 2 expected_size * 3 = fo_frame_size f
                   then fo_frame_size f else expected_size)
            in memcpy frame_data (fo_pixels f) expected_size'))"

text \<open>
  The lambda that \<open>uvc_sensor::open\<close> hands to \<open>probe_and_commit\<close> for the request
  \<open>req_profile\<close>. \<open>get_image_bpp\<close> is a table outside the source files and a parameter.
  A frame from the depth or the video archive is a \<open>video_frame\<close>, one from the motion
  archive is not. After \<open>set_stream\<close> the test \<open>fh->get_stream().get()\<close> holds.
\<close>

definition uvc_frame_callback ::
  "user_handlers \<Rightarrow> (rs2_format \<Rightarrow> nat) \<Rightarrow> stream_profile \<Rightarrow> frame_lambda \<Rightarrow> frame_object
     \<Rightarrow> uvc_sensor \<Rightarrow> outcome \<times> frame_lambda \<times> uvc_sensor" where
  "uvc_frame_callback handlers get_image_bpp req_profile lam f s =
     (if \<not> is_streaming s
      then (Returned, lam, write_log LOG_WARNING ''Frame received with streaming inactive'' s)
      else
        (case generate_frame_from_data get_image_bpp f (uvc_timestamp_reader s)
                (last_timestamp lam) (last_frame_number lam) req_profile of
           (fr, reader, logs) \<Rightarrow>
             (let s1 = s\<lparr>log_lines := log_lines s @ logs, uvc_timestamp_reader := reader\<rparr>;
                  timestamp_domain = get_frame_timestamp_domain fr;
                  msp = sp_motion req_profile;
                  lam1 = \<lparr>last_frame_number = ad_frame_number (fr_additional_data fr),
                          last_timestamp = ad_timestamp (fr_additional_data fr)\<rparr>;
                  width = (case sp_video req_profile of Some (w, h) \<Rightarrow> w | None \<Rightarrow> 0);
                  height = (case sp_video req_profile of Some (w, h) \<Rightarrow> h | None \<Rightarrow> 0);
                  bpp = (if sp_stream_type req_profile = RS2_STREAM_CONFIDENCE then 4
                         else get_image_bpp (sp_format req_profile));
                  expected_size0 = (if msp then 64
                                    else compute_frame_expected_size width height bpp);
                  expected_size =
                    (if sp_format req_profile \<in> {RS2_FORMAT_MJPEG, RS2_FORMAT_Z16H}
                     then fo_frame_size f else expected_size0)
              in case stream_to_frame_types (sp_stream_type req_profile) of
                   Inl e \<Rightarrow> (Threw e, lam1, s1)
                 | Inr type \<Rightarrow>
                     (case alloc_frame (source s1) type expected_size (fr_additional_data fr)
                             True of
                        (Threw e, fh, src) \<Rightarrow> (Threw e, lam1, s1)
                      | (Undefined_behaviour m, fh, src) \<Rightarrow> (Undefined_behaviour m, lam1, s1)
                      | (Returned, None, src) \<Rightarrow>
                          (Returned, lam1,
                           write_log LOG_INFO ''Dropped frame. alloc_frame(...) returned nullptr''
                             (s1\<lparr>source := src\<rparr>))
                      | (Returned, Some fh, src) \<Rightarrow>
                          (case copy_payload width height bpp expected_size
                                  (sp_format req_profile) f (fr_data fh) of
                             None \<Rightarrow>
                               (Undefined_behaviour ''memcpy outside a buffer'', lam1,
                                s1\<lparr>source := src\<rparr>)
                           | Some data \<Rightarrow>
                               (let fh1 = fh\<lparr>fr_data := data,
                                             fr_stream := Some req_profile,
                                             fr_timestamp_domain := timestamp_domain,
                                             fr_video :=
                                               (if type = RS2_EXTENSION_MOTION_FRAME
                                                then fr_video fh
                                                else Some (width, height,
                                                           width * bpp div 8, bpp))\<rparr>;
                                    s2 = emit Continuation (s1\<lparr>source := src\<rparr>)
                                in case invoke_callback handlers (source s2) (Some fh1) of
                                     (out, holder, events, logs') \<Rightarrow>
                                       (out, lam1,
                                        s2\<lparr>trace := trace s2 @ events,
                                           log_lines := log_lines s2 @ logs'\<rparr>)))))))"

text \<open>\<open>platform::sensor_data\<close>: the name of the HID sensor and the raw sample.\<close>

record sensor_data =
  sd_sensor_name :: string
  sd_fo :: frame_object

definition custom_gpio_to_stream_type :: "32 word \<Rightarrow> rs2_stream \<times> log_line list" where
  "custom_gpio_to_stream_type custom_gpio =
     (if custom_gpio < 4 then (RS2_STREAM_GPIO, [])
      else (RS2_STREAM_ANY, [(LOG_ERROR, ''custom_gpio is incorrect!'')]))"

text \<open>
  The second half of the capture lambda of \<open>hid_sensor::start\<close>, from
  \<open>generate_frame_from_data\<close> on, for a request that is not null. The source calls
  \<open>frame->get_frame_data()\<close> and copies the sample before it tests \<open>if (!frame)\<close>.
\<close>

definition hid_produce_frame ::
  "user_handlers \<Rightarrow> (rs2_format \<Rightarrow> nat) \<Rightarrow> bool \<Rightarrow> stream_profile \<Rightarrow> frame_lambda \<Rightarrow> frame_object
     \<Rightarrow> hid_sensor \<Rightarrow> outcome \<times> frame_lambda \<times> hid_sensor" where
  "hid_produce_frame handlers get_image_bpp is_custom_sensor request lam fo s =
     (case generate_frame_from_data get_image_bpp fo
             (if is_custom_sensor then custom_hid_timestamp_reader s
              else hid_iio_timestamp_reader s)
             (last_timestamp lam) (last_frame_number lam) request of
        (fr, reader, logs) \<Rightarrow>
          (let s1 = (if is_custom_sensor
                     then s\<lparr>log_lines := log_lines s @ logs,
                            custom_hid_timestamp_reader := reader\<rparr>
                     else s\<lparr>log_lines := log_lines s @ logs,
                            hid_iio_timestamp_reader := reader\<rparr>);
               timestamp_domain = get_frame_timestamp_domain fr;
               data_size = fo_frame_size fo;
               lam1 = \<lparr>last_frame_number = ad_frame_number (fr_additional_data fr),
                       last_timestamp = ad_timestamp (fr_additional_data fr)\<rparr>
           in case alloc_frame (source s1) RS2_EXTENSION_MOTION_FRAME data_size
                     (fr_additional_data fr) True of
                (Threw e, frame, src) \<Rightarrow> (Threw e, lam1, s1)
              | (Undefined_behaviour m, frame, src) \<Rightarrow> (Undefined_behaviour m, lam1, s1)
              | (Returned, None, src) \<Rightarrow>
                  (Undefined_behaviour ''memcpy through a null frame'', lam1, s1\<lparr>source := src\<rparr>)
              | (Returned, Some frame, src) \<Rightarrow>
                  (case memcpy (fr_data frame) (fo_pixels fo) (fo_frame_size fo) of
                     None \<Rightarrow>
                       (Undefined_behaviour ''memcpy outside a buffer'', lam1,
                        s1\<lparr>source := src\<rparr>)
                   | Some data \<Rightarrow>
                       (let frame1 = frame\<lparr>fr_data := data,
                                           fr_stream := Some request,
                                           fr_timestamp_domain := timestamp_domain\<rparr>;
                            s2 = s1\<lparr>source := src\<rparr>
                        in case invoke_callback handlers (source s2) (Some frame1) of
                             (out, holder, events, logs') \<Rightarrow>
                               (out, lam1,
                                s2\<lparr>trace := trace s2 @ events,
                                   log_lines := log_lines s2 @ logs'\<rparr>)))))"

text \<open>
  The capture lambda. \<open>_configured_profiles[sensor_name]\<close> adds a null entry when the
  name has none; a custom sensor's sample is read at offset 16 of the raw buffer.
\<close>

definition hid_capture_callback ::
  "user_handlers \<Rightarrow> (rs2_format \<Rightarrow> nat) \<Rightarrow> frame_lambda \<Rightarrow> sensor_data \<Rightarrow> hid_sensor
     \<Rightarrow> outcome \<times> frame_lambda \<times> hid_sensor" where
  "hid_capture_callback handlers get_image_bpp lam sensor_data s =
     (let sensor_name = sd_sensor_name sensor_data;
          fo = sd_fo sensor_data;
          request = (case map_of (configured_profiles s) sensor_name of
                       Some r \<Rightarrow> r | None \<Rightarrow> None);
          s0 = s\<lparr>configured_profiles := map_insert sensor_name None (configured_profiles s)\<rparr>;
          is_custom_sensor = (sensor_name = ''custom'')
      in if is_custom_sensor \<and> length (fo_pixels fo) \<le> 16
         then (Undefined_behaviour ''read past the raw buffer'', lam, s0)
         else
           (let custom = (if is_custom_sensor
                          then custom_gpio_to_stream_type (ucast (fo_pixels fo ! 16))
                          else (RS2_STREAM_ANY, []));
                s1 = (if is_custom_sensor
                      then s0\<lparr>log_lines := log_lines s0 @ snd custom\<rparr> else s0)
            in if is_custom_sensor \<and> fst custom \<notin> set (is_configured_stream s1)
               then (Returned, lam, s1)
               else if \<not> is_streaming s1
               then (case request of
                       None \<Rightarrow> (Undefined_behaviour ''null request dereferenced'', lam, s1)
                     | Some r \<Rightarrow>
                         (Returned, lam,
                          write_log LOG_INFO ''HID Frame received when Streaming is not active''
                            s1))
               else (case request of
                       None \<Rightarrow> (Undefined_behaviour ''null request dereferenced'', lam, s1)
                     | Some r \<Rightarrow>
                         hid_produce_frame handlers get_image_bpp is_custom_sensor r lam fo s1)))"

section \<open>The synthetic sensor\<close>

text \<open>A processing block, as far as \<open>get_supported_options\<close> shows it.\<close>

record processing_block =
  pb_id :: nat
  pb_supported_options :: "rs2_option list"

text \<open>The raw sensor behind a synthetic sensor is a UVC or a HID sensor.\<close>

datatype raw_sensor = Raw_uvc uvc_sensor | Raw_hid hid_sensor

fun raw_open :: "device \<Rightarrow> stream_profile list \<Rightarrow> raw_sensor \<Rightarrow> error option \<times> raw_sensor" where
  "raw_open dev requests (Raw_uvc s) = map_prod (\<lambda>e. e) Raw_uvc (uvc_open dev requests s)"
| "raw_open dev requests (Raw_hid s) = map_prod (\<lambda>e. e) Raw_hid (hid_open dev requests s)"

fun raw_register_option :: "rs2_option \<Rightarrow> option_ref \<Rightarrow> raw_sensor \<Rightarrow> raw_sensor" where
  "raw_register_option opt_id opt (Raw_uvc s) = Raw_uvc (register_option opt_id opt s)"
| "raw_register_option opt_id opt (Raw_hid s) = Raw_hid (register_option opt_id opt s)"

fun raw_set_source_owner :: "sensor_ref \<Rightarrow> raw_sensor \<Rightarrow> raw_sensor" where
  "raw_set_source_owner owner (Raw_uvc s) = Raw_uvc (s\<lparr>source_owner := owner\<rparr>)"
| "raw_set_source_owner owner (Raw_hid s) = Raw_hid (s\<lparr>source_owner := owner\<rparr>)"

record synthetic_sensor = sensor_base +
  self_ref :: sensor_ref
  raw_sensor :: raw_sensor
  cached_processing_blocks_options :: "rs2_option list"

text \<open>\<open>synthetic_sensor::register_option\<close>: on the raw sensor and on the sensor itself.\<close>

definition synthetic_register_option ::
  "rs2_option \<Rightarrow> option_ref \<Rightarrow> synthetic_sensor \<Rightarrow> synthetic_sensor" where
  "synthetic_register_option opt_id opt s =
     register_option opt_id opt (s\<lparr>raw_sensor := raw_register_option opt_id opt (raw_sensor s)\<rparr>)"

text \<open>
  \<open>register_processing_block_options\<close>: for each option of the block,
  \<open>std::none_of(begin(options), end(options), already_registered_predicate)\<close> runs over
  \<open>options\<close>, the block's own list.
\<close>

definition register_processing_block_options ::
  "processing_block \<Rightarrow> synthetic_sensor \<Rightarrow> synthetic_sensor" where
  "register_processing_block_options pb s =
     (let options = pb_supported_options pb
      in fold (\<lambda>opt s'.
                 if \<not> list_ex (\<lambda>o'. o' = opt) options
                 then (synthetic_register_option opt (Processing_block_option (pb_id pb)) s')
                        \<lparr>cached_processing_blocks_options :=
                           cached_processing_blocks_options s' @ [opt]\<rparr>
                 else s')
              options s)"

text \<open>Printing an unsigned number to a stream.\<close>

fun string_of_nat :: "nat \<Rightarrow> string" where
  "string_of_nat n =
     (if n < 10 then [''0123456789'' ! n]
      else string_of_nat (n div 10) @ [''0123456789'' ! (n mod 10)])"

declare string_of_nat.simps [simp del]

definition request_info :: "stream_profile \<Rightarrow> string" where
  "request_info r =
     tab @ ''Format: '' @ rs2_format_to_string (sp_format r)
     @ '', width: '' @ string_of_nat (case sp_video r of Some (w, h) \<Rightarrow> w | None \<Rightarrow> 0)
     @ '', height: '' @ string_of_nat (case sp_video r of Some (w, h) \<Rightarrow> h | None \<Rightarrow> 0)
     @ endl"

text \<open>
  The formats converter is outside the source files. What \<open>prepare_to_convert\<close> leaves
  for a request set, the active source profiles and the active converters, is a
  parameter; it may throw.
\<close>

type_synonym formats_converter =
  "stream_profile list \<Rightarrow> error + (stream_profile list \<times> processing_block list)"

definition synthetic_open ::
  "formats_converter \<Rightarrow> device \<Rightarrow> stream_profile list \<Rightarrow> synthetic_sensor
     \<Rightarrow> error option \<times> synthetic_sensor" where
  "synthetic_open prepare_to_convert dev requests s =
     (case prepare_to_convert requests of
        Inl e \<Rightarrow> (Some e, s)
      | Inr (resolved_req, active_pbs) \<Rightarrow>
          (let s1 = fold register_processing_block_options active_pbs s;
               s2 = s1\<lparr>raw_sensor := raw_set_source_owner (self_ref s1) (raw_sensor s1)\<rparr>
           in case raw_open dev resolved_req (raw_sensor s2) of
                (Some e, raw') \<Rightarrow>
                  (if is_runtime_error e
                   then (Some (recoverable_exception
                                 (endl @ ''Failed to resolve the request: '' @ endl
                                  @ concat (map request_info requests)
                                  @ endl @ ''Into:'' @ endl @ what e)),
                         s2\<lparr>raw_sensor := raw'\<rparr>)
                   else (Some e, s2\<lparr>raw_sensor := raw'\<rparr>))
              | (None, raw') \<Rightarrow>
                  (None, set_active_streams requests (s2\<lparr>raw_sensor := raw'\<rparr>))))"

section \<open>Sensors of either kind, and sequences of calls\<close>

fun raw_close :: "device \<Rightarrow> raw_sensor \<Rightarrow> error option \<times> raw_sensor" where
  "raw_close dev (Raw_uvc s) = map_prod (\<lambda>e. e) Raw_uvc (uvc_close dev s)"
| "raw_close dev (Raw_hid s) = map_prod (\<lambda>e. e) Raw_hid (hid_close dev s)"

fun raw_start :: "device \<Rightarrow> frame_callback option \<Rightarrow> raw_sensor \<Rightarrow> error option \<times> raw_sensor" where
  "raw_start dev callback (Raw_uvc s) = map_prod (\<lambda>e. e) Raw_uvc (uvc_start dev callback s)"
| "raw_start dev callback (Raw_hid s) = map_prod (\<lambda>e. e) Raw_hid (hid_start dev callback s)"

fun raw_stop :: "device \<Rightarrow> raw_sensor \<Rightarrow> error option \<times> raw_sensor" where
  "raw_stop dev (Raw_uvc s) = map_prod (\<lambda>e. e) Raw_uvc (uvc_stop dev s)"
| "raw_stop dev (Raw_hid s) = map_prod (\<lambda>e. e) Raw_hid (hid_stop dev s)"

fun raw_is_opened :: "raw_sensor \<Rightarrow> bool" where
  "raw_is_opened (Raw_uvc s) = is_opened s"
| "raw_is_opened (Raw_hid s) = is_opened s"

fun raw_is_streaming :: "raw_sensor \<Rightarrow> bool" where
  "raw_is_streaming (Raw_uvc s) = is_streaming s"
| "raw_is_streaming (Raw_hid s) = is_streaming s"

fun raw_get_active_streams :: "raw_sensor \<Rightarrow> stream_profile list" where
  "raw_get_active_streams (Raw_uvc s) = get_active_streams s"
| "raw_get_active_streams (Raw_hid s) = get_active_streams s"

datatype sensor_call =
    Open "stream_profile list" | Start "frame_callback option" | Stop | Close

fun raw_call :: "device \<Rightarrow> sensor_call \<Rightarrow> raw_sensor \<Rightarrow> error option \<times> raw_sensor" where
  "raw_call dev (Open requests) r = raw_open dev requests r"
| "raw_call dev (Start callback) r = raw_start dev callback r"
| "raw_call dev Stop r = raw_stop dev r"
| "raw_call dev Close r = raw_close dev r"

text \<open>A sequence of calls by one thread; an exception ends it.\<close>

fun run_calls :: "device \<Rightarrow> sensor_call list \<Rightarrow> raw_sensor \<Rightarrow> error option \<times> raw_sensor" where
  "run_calls dev [] r = (None, r)"
| "run_calls dev (c # cs) r =
     (case raw_call dev c r of
        (Some e, r') \<Rightarrow> (Some e, r')
      | (None, r') \<Rightarrow> run_calls dev cs r')"

fun is_sequence_error :: "error option \<Rightarrow> bool" where
  "is_sequence_error (Some (wrong_api_call_sequence_exception m)) = True"
| "is_sequence_error _ = False"

text \<open>A call is rejected: it throws the sequence error and the sensor is as before.\<close>

definition rejected :: "error option \<times> raw_sensor \<Rightarrow> raw_sensor \<Rightarrow> bool" where
  "rejected res r = (is_sequence_error (fst res) \<and> snd res = r)"

text \<open>The effects that a step from \<open>s\<close> to \<open>s'\<close> has added.\<close>

definition new_events :: "'a sensor_base_scheme \<Rightarrow> 'b sensor_base_scheme \<Rightarrow> event list" where
  "new_events s s' = drop (length (trace s)) (trace s')"

text \<open>The events \<open>xs\<close> occur in \<open>evs\<close> in this order (others may lie between them).\<close>

fun occur_in_order :: "event list \<Rightarrow> event list \<Rightarrow> bool" where
  "occur_in_order [] evs = True"
| "occur_in_order (x # xs) [] = False"
| "occur_in_order (x # xs) (e # evs) =
     (if x = e then occur_in_order xs evs else occur_in_order (x # xs) evs)"

datatype power_call = Acquire | Release

fun run_power :: "device \<Rightarrow> power_call list \<Rightarrow> uvc_sensor \<Rightarrow> error option \<times> uvc_sensor" where
  "run_power dev [] s = (None, s)"
| "run_power dev (Acquire # cs) s =
     (case acquire_power dev s of
        (Some e, s') \<Rightarrow> (Some e, s')
      | (None, s') \<Rightarrow> run_power dev cs s')"
| "run_power dev (Release # cs) s =
     (case release_power dev s of
        (Some e, s') \<Rightarrow> (Some e, s')
      | (None, s') \<Rightarrow> run_power dev cs s')"

section \<open>Concrete sensors, profiles and transports\<close>

text \<open>A transport whose calls all return.\<close>

definition silent_device :: device where
  "silent_device h c = None"

text \<open>A transport on which exactly the calls listed in \<open>failures\<close> throw, each its error.\<close>

definition failing_device :: "(event \<times> error) list \<Rightarrow> device" where
  "failing_device failures h c = map_of failures c"

text \<open>The sensors as their constructors leave them.\<close>

definition new_uvc_sensor :: "nat list \<Rightarrow> uvc_sensor" where
  "new_uvc_sensor registered_xus =
     \<lparr>is_streaming = False, is_opened = False, active_profiles = [],
      source = new_frame_source 16,
      metadata_parsers = [RS2_FRAME_METADATA_TIME_OF_ARRIVAL,
                          RS2_FRAME_METADATA_BACKEND_TIMESTAMP,
                          RS2_FRAME_METADATA_RAW_FRAME_SIZE],
      source_owner = 0, owner_is_global_time_interface = True,
      fourcc_to_rs2_format_map = [(0x5A313620, RS2_FORMAT_Z16), (0x59555932, RS2_FORMAT_YUYV),
                                  (0x47524559, RS2_FORMAT_Y8)],
      options = [(RS2_OPTION_FRAMES_QUEUE_SIZE, Sensor_option)],
      trace = [], log_lines = [],
      internal_config = [], on_open_set = False, power = False, user_count = 0,
      xus = registered_xus, uvc_timestamp_reader = new_iio_hid_timestamp_reader\<rparr>"

definition new_hid_sensor :: hid_sensor where
  "new_hid_sensor =
     \<lparr>is_streaming = False, is_opened = False, active_profiles = [],
      source = new_frame_source 16,
      metadata_parsers = [RS2_FRAME_METADATA_TIME_OF_ARRIVAL,
                          RS2_FRAME_METADATA_BACKEND_TIMESTAMP],
      source_owner = 1, owner_is_global_time_interface = True,
      fourcc_to_rs2_format_map = [],
      options = [(RS2_OPTION_FRAMES_QUEUE_SIZE, Sensor_option)],
      trace = [], log_lines = [],
      sensor_name_and_hid_profiles = [(''gyro_3d'', RS2_STREAM_GYRO),
                                      (''accel_3d'', RS2_STREAM_ACCEL)],
      fps_and_sampling_frequency_per_rs2_stream = [],
      configured_profiles = [], is_configured_stream = [],
      hid_iio_timestamp_reader = new_iio_hid_timestamp_reader,
      custom_hid_timestamp_reader = new_iio_hid_timestamp_reader\<rparr>"

definition video_profile ::
  "rs2_stream \<Rightarrow> rs2_format \<Rightarrow> 32 word \<Rightarrow> nat \<Rightarrow> nat \<Rightarrow> 32 word \<Rightarrow> stream_profile" where
  "video_profile stream format fourcc width height fps =
     \<lparr>sp_stream_type = stream, sp_stream_index = 0, sp_format = format, sp_framerate = fps,
      sp_video = Some (width, height), sp_motion = False,
      sp_backend_profile = \<lparr>pp_width = of_nat width, pp_height = of_nat height,
                            pp_fps = fps, pp_format = fourcc\<rparr>\<rparr>"

definition motion_profile :: "rs2_stream \<Rightarrow> 32 word \<Rightarrow> 32 word \<Rightarrow> stream_profile" where
  "motion_profile stream fourcc fps =
     \<lparr>sp_stream_type = stream, sp_stream_index = 0, sp_format = RS2_FORMAT_MOTION_XYZ32F,
      sp_framerate = fps, sp_video = None, sp_motion = True,
      sp_backend_profile = \<lparr>pp_width = 1, pp_height = 1, pp_fps = fps, pp_format = fourcc\<rparr>\<rparr>"

definition depth_profile :: stream_profile where
  "depth_profile = video_profile RS2_STREAM_DEPTH RS2_FORMAT_Z16 0x5A313620 640 480 30"

definition color_profile :: stream_profile where
  "color_profile = video_profile RS2_STREAM_COLOR RS2_FORMAT_YUYV 0x59555932 640 480 30"

definition infrared_profile :: stream_profile where
  "infrared_profile = video_profile RS2_STREAM_INFRARED RS2_FORMAT_Y8 0x47524559 640 480 30"

definition gyro_profile :: stream_profile where
  "gyro_profile = motion_profile RS2_STREAM_GYRO 0x4759524F 200"

text \<open>A UVC and a HID sensor that were opened and started on the silent transport.\<close>

definition streaming_uvc_sensor :: uvc_sensor where
  "streaming_uvc_sensor =
     snd (uvc_start silent_device (Some (Frame_callback 1))
            (snd (uvc_open silent_device [depth_profile] (new_uvc_sensor [7]))))"

definition streaming_hid_sensor :: hid_sensor where
  "streaming_hid_sensor =
     snd (hid_start silent_device (Some (Frame_callback 1))
            (snd (hid_open silent_device [gyro_profile] new_hid_sensor)))"

text \<open>A frame of the depth archive, and handlers of the application that throw.\<close>

definition example_additional_data :: frame_additional_data where
  "example_additional_data =
     \<lparr>ad_timestamp = Backend_time 5, ad_frame_number = 1, ad_system_time = System_clock_now,
      ad_metadata_size = 0, ad_metadata_blob = [], ad_backend_timestamp = Backend_time 5,
      ad_last_timestamp = Time_zero, ad_last_frame_number = 0, ad_raw_size = 8\<rparr>"

definition example_frame :: frame where
  "example_frame =
     \<lparr>fr_type = RS2_EXTENSION_DEPTH_FRAME, fr_data = [1, 2, 3, 4, 5, 6, 7, 8],
      fr_additional_data = example_additional_data, fr_stream = Some depth_profile,
      fr_timestamp_domain = RS2_TIMESTAMP_DOMAIN_SYSTEM_TIME,
      fr_video = Some (2, 2, 4, 16), fr_owner = True\<rparr>"

definition throwing_handlers :: user_handlers where
  "throwing_handlers callback f = Handler_throws_std ''handler failed''"

definition returning_handlers :: user_handlers where
  "returning_handlers callback f = Handler_returns"

text \<open>
  A transport that throws on the commit of the infrared profile and on the close of the
  depth profile, as one that is unplugged while \<open>open\<close> runs.
\<close>

definition disconnecting_device :: device where
  "disconnecting_device =
     failing_device
       [(Dev_probe_and_commit (sp_backend_profile infrared_profile),
         backend_exception ''commit failed''),
        (Dev_close (sp_backend_profile depth_profile), backend_exception ''close failed'')]"

text \<open>
  A confidence stream of 16 by 1 pixels, for which the frame callback sets \<open>bpp = 4\<close>, a
  sensor streaming it, and a raw buffer of one row padded to 64 bytes. The table of the
  bits per pixel is an example of what \<open>get_image_bpp\<close> may return.
\<close>

definition example_image_bpp :: "rs2_format \<Rightarrow> nat" where
  "example_image_bpp format =
     (if format \<in> {RS2_FORMAT_Z16, RS2_FORMAT_Y16, RS2_FORMAT_YUYV} then 16
      else if format \<in> {RS2_FORMAT_RGB8, RS2_FORMAT_Y12I} then 24
      else if format = RS2_FORMAT_MOTION_XYZ32F then 96
      else 8)"

definition confidence_profile :: stream_profile where
  "confidence_profile = video_profile RS2_STREAM_CONFIDENCE RS2_FORMAT_RAW8 0x43202020 16 1 30"

definition streaming_confidence_sensor :: uvc_sensor where
  "streaming_confidence_sensor =
     snd (uvc_start silent_device (Some (Frame_callback 1))
            (snd (uvc_open silent_device [confidence_profile] (new_uvc_sensor [7]))))"

definition padded_raw_buffer :: frame_object where
  "padded_raw_buffer =
     \<lparr>fo_frame_size = 64, fo_metadata_size = 0,
      fo_pixels = [1, 2, 3, 4, 5, 6, 7, 8] @ replicate 56 0,
      fo_metadata = [], fo_backend_time = Backend_time 5\<rparr>"

definition new_frame_lambda :: frame_lambda where
  "new_frame_lambda = \<lparr>last_frame_number = 0, last_timestamp = Time_zero\<rparr>"

text \<open>
  A streaming HID sensor whose queue size option was set to 1, and a sample of the gyro.
\<close>

definition one_slot_hid_sensor :: hid_sensor where
  "one_slot_hid_sensor =
     streaming_hid_sensor
       \<lparr>source := (source streaming_hid_sensor)\<lparr>fs_max_publish_list_size := 1\<rparr>\<rparr>"

definition gyro_sample :: sensor_data where
  "gyro_sample =
     \<lparr>sd_sensor_name = ''gyro_3d'',
      sd_fo = \<lparr>fo_frame_size = 6, fo_metadata_size = 0, fo_pixels = [1, 0, 2, 0, 3, 0],
               fo_metadata = [], fo_backend_time = Backend_time 7\<rparr>\<rparr>"

text \<open>
  A synthetic sensor over a new UVC sensor, and a formats converter that resolves every
  request to the depth profile and one processing block with two options.
\<close>

definition new_synthetic_sensor :: synthetic_sensor where
  "new_synthetic_sensor =
     \<lparr>is_streaming = False, is_opened = False, active_profiles = [],
      source = new_frame_source 16,
      metadata_parsers = [RS2_FRAME_METADATA_TIME_OF_ARRIVAL],
      source_owner = 2, owner_is_global_time_interface = True,
      fourcc_to_rs2_format_map = [(0x5A313620, RS2_FORMAT_Z16)],
      options = [(RS2_OPTION_FRAMES_QUEUE_SIZE, Sensor_option)],
      trace = [], log_lines = [],
      self_ref = 2, raw_sensor = Raw_uvc (new_uvc_sensor [7]),
      cached_processing_blocks_options = []\<rparr>"

definition example_converter :: formats_converter where
  "example_converter requests =
     Inr ([depth_profile],
          [\<lparr>pb_id = 1,
            pb_supported_options = [RS2_OPTION_STREAM_FILTER, RS2_OPTION_STREAM_FORMAT_FILTER]\<rparr>])"

section \<open>Properties\<close>

subsection \<open>Unfolding the model\<close>

lemmas source_defs = new_frame_source_def supported_def init_def reset_def flush_def set_sensor_def
  set_callback_def get_callback_def make_archive_def archive_flush_def

lemmas base_defs = emit_def write_log_def call_def set_active_streams_def get_active_streams_def
  source_flush_def source_reset_def
  raise_on_before_streaming_changes_def store_is_streaming_def get_frames_callback_def
  iio_reset_def new_iio_hid_timestamp_reader_def sensors_def

lemmas uvc_defs = uvc_open_def uvc_close_def uvc_start_def uvc_stop_def acquire_power_def
  release_power_def power_reset_def verify_supported_requests_def reset_streaming_def
  uvc_timestamp_reader_reset_def

lemmas hid_defs = hid_open_def hid_close_def hid_start_def hid_stop_def
  hid_timestamp_readers_reset_def fps_to_sampling_frequency_def map_insert_def

lemmas example_defs = silent_device_def failing_device_def new_uvc_sensor_def new_hid_sensor_def
  video_profile_def motion_profile_def depth_profile_def gyro_profile_def
  streaming_uvc_sensor_def streaming_hid_sensor_def example_additional_data_def
  example_image_bpp_def new_frame_lambda_def returning_handlers_def

lemmas frame_defs = compute_frame_expected_size_def memcpy_def generate_frame_from_data_def
  has_metadata_def get_frame_timestamp_def get_frame_counter_def
  get_frame_timestamp_domain_def alloc_frame_def alloc_and_track_def invoke_callback_def

subsection \<open>The state machine of a sensor\<close>

lemma source_flush_fields [simp]:
  "is_opened (source_flush s) = is_opened s"
  "is_streaming (source_flush s) = is_streaming s"
  "active_profiles (source_flush s) = active_profiles s"
  "log_lines (source_flush s) = log_lines s"
  "trace (source_flush s) = trace s @ fst (flush (source s))"
  "source (source_flush s) = snd (flush (source s))"
  by (simp_all add: source_flush_def case_prod_beta)

lemma source_reset_fields [simp]:
  "is_opened (source_reset s) = is_opened s"
  "is_streaming (source_reset s) = is_streaming s"
  "active_profiles (source_reset s) = active_profiles s"
  "log_lines (source_reset s) = log_lines s"
  "trace (source_reset s) = trace s"
  "source (source_reset s) = reset (source s)"
  by (simp_all add: source_reset_def)

lemma source_flush_reset_uvc [simp]:
  "user_count (source_flush s) = user_count s"
  "power (source_flush s) = power s"
  "user_count (source_reset s) = user_count s"
  "power (source_reset s) = power s"
  by (simp_all add: source_flush_def source_reset_def case_prod_beta)

lemma call_all_flags [simp]:
  "is_opened (snd (call_all dev cs s)) = is_opened s"
  "is_streaming (snd (call_all dev cs s)) = is_streaming s"
  "active_profiles (snd (call_all dev cs s)) = active_profiles s"
  by (induction cs arbitrary: s; simp add: call_def emit_def split: option.splits)+

lemma call_all_ignoring_flags [simp]:
  "is_opened (call_all_ignoring dev cs s) = is_opened s"
  "is_streaming (call_all_ignoring dev cs s) = is_streaming s"
  "active_profiles (call_all_ignoring dev cs s) = active_profiles s"
  by (induction cs arbitrary: s; simp add: call_def emit_def)+

lemma call_all_error:
  "fst (call_all dev cs s) = Some e \<Longrightarrow> \<exists>h c. dev h c = Some e"
  by (induction cs arbitrary: s) (auto simp: call_def split: option.splits)

lemma acquire_power_flags [simp]:
  "is_opened (snd (acquire_power dev s)) = is_opened s"
  "is_streaming (snd (acquire_power dev s)) = is_streaming s"
  "active_profiles (snd (acquire_power dev s)) = active_profiles s"
  by (simp_all add: acquire_power_def Let_def write_log_def case_prod_beta call_def emit_def
      split: option.splits)

lemma release_power_flags [simp]:
  "is_opened (snd (release_power dev s)) = is_opened s"
  "is_streaming (snd (release_power dev s)) = is_streaming s"
  "active_profiles (snd (release_power dev s)) = active_profiles s"
  by (simp_all add: release_power_def Let_def write_log_def case_prod_beta call_def emit_def
      split: option.splits)

lemma release_power_returns [simp]: "fst (release_power dev s) = None"
  by (simp add: release_power_def Let_def case_prod_beta split: option.splits)

lemma acquire_power_error:
  "fst (acquire_power dev s) = Some e \<Longrightarrow> \<exists>h c. dev h c = Some e"
  by (auto simp: acquire_power_def Let_def case_prod_beta call_def
      split: option.splits if_splits dest: call_all_error)

lemma commit_profiles_flags [simp]:
  "is_opened (snd (snd (commit_profiles dev reqs commited s))) = is_opened s"
  "is_streaming (snd (snd (commit_profiles dev reqs commited s))) = is_streaming s"
  "active_profiles (snd (snd (commit_profiles dev reqs commited s))) = active_profiles s"
  by (induction reqs arbitrary: commited s;
      simp add: case_prod_beta call_def emit_def split: option.splits)+

lemma commit_profiles_error:
  "fst (commit_profiles dev reqs commited s) = Some e \<Longrightarrow> \<exists>h c. dev h c = Some e"
  by (induction reqs arbitrary: commited s)
     (auto simp: case_prod_beta call_def split: option.splits dest: call_all_error)

lemma verify_supported_requests_error:
  "verify_supported_requests reqs = Some e \<Longrightarrow> is_runtime_error e"
  by (auto simp: verify_supported_requests_def Let_def split: if_splits)

lemma power_reset_flags [simp]:
  "is_opened (power_reset dev s) = is_opened s"
  "is_streaming (power_reset dev s) = is_streaming s"
  "active_profiles (power_reset dev s) = active_profiles s"
  by (simp_all add: power_reset_def)

lemma reset_streaming_flags [simp]:
  "is_opened (reset_streaming s) = is_opened s"
  "is_streaming (reset_streaming s) = is_streaming s"
  "active_profiles (reset_streaming s) = active_profiles s"
  by (simp_all add: reset_streaming_def uvc_timestamp_reader_reset_def emit_def
      source_flush_def source_reset_def case_prod_beta)

lemma runtime_error_not_sequence_error:
  "is_runtime_error e \<Longrightarrow> \<not> is_sequence_error (Some e)"
  by (cases e) simp_all

lemma uvc_open_error:
  assumes "\<not> is_opened s" "\<not> is_streaming s" "fst (uvc_open dev reqs s) = Some e"
  shows "(\<exists>h c. dev h c = Some e) \<or> \<not> is_sequence_error (Some e)"
proof -
  have "(\<exists>h c. dev h c = Some e) \<or> is_runtime_error e"
    using assms
    by (auto simp: uvc_open_def Let_def case_prod_beta call_def
        split: option.splits if_splits
        dest: acquire_power_error commit_profiles_error verify_supported_requests_error)
  then show ?thesis using runtime_error_not_sequence_error by blast
qed

lemma uvc_open_opened:
  assumes "\<not> is_opened s" "\<not> is_streaming s" "fst (uvc_open dev reqs s) = None"
  shows "is_opened (snd (uvc_open dev reqs s)) \<and> \<not> is_streaming (snd (uvc_open dev reqs s))
         \<and> active_profiles (snd (uvc_open dev reqs s)) = reqs"
  using assms
  by (simp add: uvc_open_def Let_def case_prod_beta call_def emit_def set_active_streams_def
        split: option.splits if_splits)

lemma uvc_start_legal:
  assumes "is_opened s" "\<not> is_streaming s"
  shows "fst (uvc_start dev cb s) = dev (trace s @ [Raise_on_before_streaming_changes True,
            Store_is_streaming True]) Dev_start_callbacks"
    and "is_opened (snd (uvc_start dev cb s))" and "is_streaming (snd (uvc_start dev cb s))"
  using assms
  by (simp_all add: uvc_start_def Let_def call_def emit_def store_is_streaming_def
      raise_on_before_streaming_changes_def)

lemma uvc_stop_legal:
  assumes "is_streaming s"
  shows "fst (uvc_stop dev s) = dev (trace s @ [Store_is_streaming False]) Dev_stop_callbacks"
    and "is_opened (snd (uvc_stop dev s)) = is_opened s"
    and "\<not> is_streaming (snd (uvc_stop dev s))"
  using assms
  by (simp_all add: uvc_stop_def Let_def call_def emit_def store_is_streaming_def
      raise_on_before_streaming_changes_def uvc_timestamp_reader_reset_def case_prod_beta
      split: option.splits)

lemma uvc_close_legal:
  assumes "is_opened s" "\<not> is_streaming s"
  shows "fst (uvc_close dev s) = None"
    and "\<not> is_opened (snd (uvc_close dev s))" and "\<not> is_streaming (snd (uvc_close dev s))"
    and "active_profiles (snd (uvc_close dev s)) = []"
  using assms
  by (simp_all add: uvc_close_def Let_def emit_def set_active_streams_def)

lemma configure_requests_flags [simp]:
  "is_opened (snd (snd (configure_requests reqs acc s))) = is_opened s"
  "is_streaming (snd (snd (configure_requests reqs acc s))) = is_streaming s"
  "trace (snd (snd (configure_requests reqs acc s))) = trace s"
  by (induction reqs arbitrary: acc s; simp split: sum.splits)+

lemma rs2_stream_to_sensor_name_error:
  "rs2_stream_to_sensor_name names st = Inl e \<Longrightarrow> \<not> is_sequence_error (Some e)"
  by (induction names) (auto split: if_splits)

lemma configure_requests_error:
  "fst (configure_requests reqs acc s) = Some e \<Longrightarrow> \<not> is_sequence_error (Some e)"
  by (induction reqs arbitrary: acc s)
     (auto split: sum.splits dest: rs2_stream_to_sensor_name_error)

lemma hid_open_error:
  assumes "\<not> is_opened s" "\<not> is_streaming s" "fst (hid_open dev reqs s) = Some e"
  shows "(\<exists>h c. dev h c = Some e) \<or> \<not> is_sequence_error (Some e)"
  using assms
  by (auto simp: hid_open_def Let_def case_prod_beta call_def
      split: option.splits if_splits dest: configure_requests_error)

lemma hid_open_opened:
  assumes "\<not> is_opened s" "\<not> is_streaming s" "fst (hid_open dev reqs s) = None"
  shows "is_opened (snd (hid_open dev reqs s)) \<and> \<not> is_streaming (snd (hid_open dev reqs s))
         \<and> active_profiles (snd (hid_open dev reqs s)) = reqs"
  using assms
  by (simp add: hid_open_def Let_def case_prod_beta call_def emit_def set_active_streams_def
        split: option.splits if_splits)

lemma hid_start_legal:
  assumes "is_opened s" "\<not> is_streaming s"
  shows "fst (hid_start dev cb s) =
           dev (trace s @ [Raise_on_before_streaming_changes True]) Hid_start_capture"
    and "is_opened (snd (hid_start dev cb s))"
    and "fst (hid_start dev cb s) = None \<Longrightarrow> is_streaming (snd (hid_start dev cb s))"
  using assms
  by (simp_all add: hid_start_def Let_def call_def emit_def store_is_streaming_def
      raise_on_before_streaming_changes_def case_prod_beta split: option.splits)

lemma hid_stop_legal:
  assumes "is_streaming s"
  shows "fst (hid_stop dev s) = dev (trace s) Hid_stop_capture"
    and "is_opened (snd (hid_stop dev s)) = is_opened s"
    and "fst (hid_stop dev s) = None \<Longrightarrow> \<not> is_streaming (snd (hid_stop dev s))"
  using assms
  by (simp_all add: hid_stop_def Let_def call_def emit_def store_is_streaming_def
      raise_on_before_streaming_changes_def hid_timestamp_readers_reset_def case_prod_beta
      split: option.splits)

lemma hid_close_legal:
  assumes "is_opened s" "\<not> is_streaming s"
  shows "fst (hid_close dev s) = dev (trace s) Hid_close"
    and "fst (hid_close dev s) = None \<Longrightarrow>
           \<not> is_opened (snd (hid_close dev s)) \<and> \<not> is_streaming (snd (hid_close dev s))
           \<and> active_profiles (snd (hid_close dev s)) = []"
  using assms
  by (simp_all add: hid_close_def Let_def call_def emit_def set_active_streams_def
      case_prod_beta split: option.splits)

lemma raw_open_rejected:
  "raw_is_opened r \<or> raw_is_streaming r \<Longrightarrow> rejected (raw_open dev requests r) r"
  by (cases r) (auto simp: rejected_def uvc_open_def hid_open_def)

lemma raw_start_rejected:
  "raw_is_streaming r \<or> \<not> raw_is_opened r \<Longrightarrow> rejected (raw_start dev callback r) r"
  by (cases r) (auto simp: rejected_def uvc_start_def hid_start_def)

lemma raw_stop_rejected:
  "\<not> raw_is_streaming r \<Longrightarrow> rejected (raw_stop dev r) r"
  by (cases r) (auto simp: rejected_def uvc_stop_def hid_stop_def)

lemma raw_close_rejected:
  "raw_is_streaming r \<or> \<not> raw_is_opened r \<Longrightarrow> rejected (raw_close dev r) r"
  by (cases r) (auto simp: rejected_def uvc_close_def hid_close_def)

lemma raw_open_legal:
  assumes "\<not> raw_is_opened r" "\<not> raw_is_streaming r" "\<forall>h c. \<not> is_sequence_error (dev h c)"
  shows "\<not> is_sequence_error (fst (raw_open dev reqs r))"
    and "fst (raw_open dev reqs r) = None \<Longrightarrow>
           raw_is_opened (snd (raw_open dev reqs r)) \<and> \<not> raw_is_streaming (snd (raw_open dev reqs r))"
proof -
  show "\<not> is_sequence_error (fst (raw_open dev reqs r))"
  proof (cases "fst (raw_open dev reqs r)")
    case None
    then show ?thesis by simp
  next
    case (Some e)
    then have "(\<exists>h c. dev h c = Some e) \<or> \<not> is_sequence_error (Some e)"
      using assms(1,2) uvc_open_error[of _ dev reqs e] hid_open_error[of _ dev reqs e]
      by (cases r) auto
    then show ?thesis using Some assms(3) by metis
  qed
  show "fst (raw_open dev reqs r) = None \<Longrightarrow>
           raw_is_opened (snd (raw_open dev reqs r)) \<and> \<not> raw_is_streaming (snd (raw_open dev reqs r))"
    using assms(1,2) uvc_open_opened[of _ dev reqs] hid_open_opened[of _ dev reqs]
    by (cases r) auto
qed

lemma raw_start_legal:
  assumes "raw_is_opened r" "\<not> raw_is_streaming r" "\<forall>h c. \<not> is_sequence_error (dev h c)"
  shows "\<not> is_sequence_error (fst (raw_start dev cb r))"
    and "fst (raw_start dev cb r) = None \<Longrightarrow>
           raw_is_opened (snd (raw_start dev cb r)) \<and> raw_is_streaming (snd (raw_start dev cb r))"
  using assms by (cases r; simp add: uvc_start_legal hid_start_legal)+

lemma raw_stop_legal:
  assumes "raw_is_opened r" "raw_is_streaming r" "\<forall>h c. \<not> is_sequence_error (dev h c)"
  shows "\<not> is_sequence_error (fst (raw_stop dev r))"
    and "fst (raw_stop dev r) = None \<Longrightarrow>
           raw_is_opened (snd (raw_stop dev r)) \<and> \<not> raw_is_streaming (snd (raw_stop dev r))"
  using assms by (cases r; simp add: uvc_stop_legal hid_stop_legal)+

lemma raw_close_legal:
  assumes "raw_is_opened r" "\<not> raw_is_streaming r" "\<forall>h c. \<not> is_sequence_error (dev h c)"
  shows "\<not> is_sequence_error (fst (raw_close dev r))"
    and "fst (raw_close dev r) = None \<Longrightarrow>
           \<not> raw_is_opened (snd (raw_close dev r)) \<and> \<not> raw_is_streaming (snd (raw_close dev r))
           \<and> raw_get_active_streams (snd (raw_close dev r)) = []"
  using assms by (cases r; simp add: uvc_close_legal hid_close_legal get_active_streams_def)+

lemma legal_sequence:
  assumes closed: "\<not> raw_is_opened r" "\<not> raw_is_streaming r"
    and dev: "\<forall>h c. \<not> is_sequence_error (dev h c)"
  shows "\<not> is_sequence_error (fst (run_calls dev [Open requests, Start callback, Stop, Close] r))"
    and "fst (run_calls dev [Open requests, Start callback, Stop, Close] r) = None \<Longrightarrow>
         \<not> raw_is_opened (snd (run_calls dev [Open requests, Start callback, Stop, Close] r)) \<and>
         \<not> raw_is_streaming (snd (run_calls dev [Open requests, Start callback, Stop, Close] r)) \<and>
         raw_get_active_streams (snd (run_calls dev [Open requests, Start callback, Stop, Close] r)) = []"
proof -
  obtain e1 r1 where o: "raw_open dev requests r = (e1, r1)" by fastforce
  obtain e2 r2 where s: "raw_start dev callback r1 = (e2, r2)" by fastforce
  obtain e3 r3 where t: "raw_stop dev r2 = (e3, r3)" by fastforce
  obtain e4 r4 where c: "raw_close dev r3 = (e4, r4)" by fastforce
  have 1: "\<not> is_sequence_error e1" "e1 = None \<Longrightarrow> raw_is_opened r1 \<and> \<not> raw_is_streaming r1"
    using raw_open_legal[OF closed dev, of requests] o by simp_all
  have 2: "e1 = None \<Longrightarrow> \<not> is_sequence_error e2"
    "e1 = None \<Longrightarrow> e2 = None \<Longrightarrow> raw_is_opened r2 \<and> raw_is_streaming r2"
    using raw_start_legal[OF _ _ dev, of r1 callback] 1(2) s by simp_all
  have 3: "e1 = None \<Longrightarrow> e2 = None \<Longrightarrow> \<not> is_sequence_error e3"
    "e1 = None \<Longrightarrow> e2 = None \<Longrightarrow> e3 = None \<Longrightarrow> raw_is_opened r3 \<and> \<not> raw_is_streaming r3"
    using raw_stop_legal[OF _ _ dev, of r2] 2(2) t by simp_all
  have 4: "e1 = None \<Longrightarrow> e2 = None \<Longrightarrow> e3 = None \<Longrightarrow> \<not> is_sequence_error e4"
    "e1 = None \<Longrightarrow> e2 = None \<Longrightarrow> e3 = None \<Longrightarrow> e4 = None \<Longrightarrow>
       \<not> raw_is_opened r4 \<and> \<not> raw_is_streaming r4 \<and> raw_get_active_streams r4 = []"
    using raw_close_legal[OF _ _ dev, of r3] 3(2) c by simp_all
  show "\<not> is_sequence_error (fst (run_calls dev [Open requests, Start callback, Stop, Close] r))"
    using 1 2 3 4 by (auto simp: o s t c split: option.splits)
  show "fst (run_calls dev [Open requests, Start callback, Stop, Close] r) = None \<Longrightarrow>
         \<not> raw_is_opened (snd (run_calls dev [Open requests, Start callback, Stop, Close] r)) \<and>
         \<not> raw_is_streaming (snd (run_calls dev [Open requests, Start callback, Stop, Close] r)) \<and>
         raw_get_active_streams (snd (run_calls dev [Open requests, Start callback, Stop, Close] r)) = []"
    using 1 2 3 4 by (auto simp: o s t c split: option.splits)
qed

text \<open>
  Claim C1. For a sensor of either kind: \<open>open\<close> on a sensor that is opened or
  streaming, \<open>start\<close> on one that is streaming or not opened, \<open>stop\<close> on one that
  is not streaming and \<open>close\<close> on one that is streaming or not opened throw
  \<open>wrong_api_call_sequence_exception\<close> and leave the whole sensor object, its two
  flags and its active streams included, as it was. From a closed sensor, on a transport
  that throws no sequence error of its own, the sequence open, start, stop, close ends
  with no sequence error; when it runs to its end the sensor is closed again with no
  active stream.
\<close>

theorem sensor_call_sequence:
  "(raw_is_opened r \<or> raw_is_streaming r \<longrightarrow> rejected (raw_open dev requests r) r)
   \<and> (raw_is_streaming r \<or> \<not> raw_is_opened r \<longrightarrow> rejected (raw_start dev callback r) r)
   \<and> (\<not> raw_is_streaming r \<longrightarrow> rejected (raw_stop dev r) r)
   \<and> (raw_is_streaming r \<or> \<not> raw_is_opened r \<longrightarrow> rejected (raw_close dev r) r)
   \<and> (\<not> raw_is_opened r \<and> \<not> raw_is_streaming r \<and> (\<forall>h c. \<not> is_sequence_error (dev h c))
        \<longrightarrow> \<not> is_sequence_error
              (fst (run_calls dev [Open requests, Start callback, Stop, Close] r))
          \<and> (fst (run_calls dev [Open requests, Start callback, Stop, Close] r) = None
               \<longrightarrow> \<not> raw_is_opened (snd (run_calls dev [Open requests, Start callback, Stop, Close] r))
                 \<and> \<not> raw_is_streaming (snd (run_calls dev [Open requests, Start callback, Stop, Close] r))
                 \<and> raw_get_active_streams
                       (snd (run_calls dev [Open requests, Start callback, Stop, Close] r)) = []))"
  using raw_open_rejected[of r dev requests] raw_start_rejected[of r dev callback]
    raw_stop_rejected[of r dev] raw_close_rejected[of r dev]
    legal_sequence[of r dev requests callback]
  by blast


theorem sensor_call_sequence_witness:
  "\<not> raw_is_opened (Raw_uvc (new_uvc_sensor [7]))
   \<and> \<not> raw_is_streaming (Raw_uvc (new_uvc_sensor [7]))
   \<and> (\<forall>h c. \<not> is_sequence_error (silent_device h c))
   \<and> fst (run_calls silent_device
              [Open [depth_profile], Start (Some (Frame_callback 1)), Stop, Close]
              (Raw_uvc (new_uvc_sensor [7]))) = None
   \<and> rejected (raw_stop silent_device (Raw_uvc (new_uvc_sensor [7])))
         (Raw_uvc (new_uvc_sensor [7]))
   \<and> raw_is_opened (snd (raw_open silent_device [gyro_profile] (Raw_hid new_hid_sensor)))
   \<and> rejected (raw_open silent_device [gyro_profile]
                 (snd (raw_open silent_device [gyro_profile] (Raw_hid new_hid_sensor))))
         (snd (raw_open silent_device [gyro_profile] (Raw_hid new_hid_sensor)))
   \<and> raw_is_streaming (Raw_uvc streaming_uvc_sensor)
   \<and> rejected (raw_close silent_device (Raw_uvc streaming_uvc_sensor))
         (Raw_uvc streaming_uvc_sensor)
   \<and> rejected (raw_start silent_device None (Raw_uvc streaming_uvc_sensor))
         (Raw_uvc streaming_uvc_sensor)"
  using sensor_call_sequence[of "Raw_uvc (new_uvc_sensor [7])" silent_device
      "[depth_profile]" "Some (Frame_callback 1)"]
    sensor_call_sequence[of "snd (raw_open silent_device [gyro_profile] (Raw_hid new_hid_sensor))"
      silent_device "[gyro_profile]" None]
    sensor_call_sequence[of "Raw_uvc streaming_uvc_sensor" silent_device "[depth_profile]" None]
  by (simp add: source_defs base_defs uvc_defs hid_defs example_defs Let_def)

subsection \<open>What stop does, in which order\<close>

lemma uvc_stop_events:
  assumes "is_streaming u"
  shows "new_events u (snd (uvc_stop dev u)) =
           (if fst (uvc_stop dev u) = None
            then [Store_is_streaming False, Dev_stop_callbacks,
                  Timestamp_reader_reset Uvc_timestamp_reader,
                  Raise_on_before_streaming_changes False]
            else [Store_is_streaming False, Dev_stop_callbacks])"
  using assms
  by (simp add: uvc_stop_def new_events_def base_defs uvc_timestamp_reader_reset_def Let_def
      case_prod_beta split: option.splits)

lemma flush_events:
  "Archive_flush t \<in> set (fst (flush src)) \<longleftrightarrow> (\<exists>ar. (t, Some ar) \<in> set (fs_archive src))"
  by (auto simp: flush_def image_iff)

lemma flush_drains:
  "(t, Some ar) \<in> set (fs_archive (snd (flush src))) \<Longrightarrow> ar_published ar = 0"
proof -
  assume "(t, Some ar) \<in> set (fs_archive (snd (flush src)))"
  then obtain b where "Some ar = map_option archive_flush b" by (auto simp: flush_def)
  then show ?thesis by (cases b) (auto simp: archive_flush_def)
qed

lemma hid_stop_events:
  assumes "is_streaming h"
  shows "new_events h (snd (hid_stop dev h)) =
           (if fst (hid_stop dev h) = None
            then [Hid_stop_capture, Store_is_streaming False] @ fst (flush (source h))
                 @ [Timestamp_reader_reset Hid_iio_timestamp_reader,
                    Timestamp_reader_reset Custom_hid_timestamp_reader,
                    Raise_on_before_streaming_changes False]
            else [Hid_stop_capture])"
  using assms
  by (simp add: hid_stop_def new_events_def base_defs hid_timestamp_readers_reset_def Let_def
      case_prod_beta split: option.splits)

text \<open>
  Claim C3, at a HID sensor that was opened and started: \<open>stop\<close> returns, and the call
  that tells the transport to stop the capture comes first; the streaming flag is
  stored as false only after that call has returned, so the store does not precede the
  call. The reset of the two timestamp readers and the post-stop notification follow
  in the order of the claim. The UVC sensor, started the same way, stores the flag
  first, then stops the callbacks, resets its reader and raises the notification.
\<close>

theorem hid_stop_stores_flag_after_stop_capture:
  "is_streaming streaming_hid_sensor
   \<and> fst (hid_stop silent_device streaming_hid_sensor) = None
   \<and> \<not> occur_in_order [Store_is_streaming False, Hid_stop_capture]
         (new_events streaming_hid_sensor (snd (hid_stop silent_device streaming_hid_sensor)))
   \<and> occur_in_order
        [Hid_stop_capture, Store_is_streaming False,
         Timestamp_reader_reset Hid_iio_timestamp_reader,
         Timestamp_reader_reset Custom_hid_timestamp_reader,
         Raise_on_before_streaming_changes False]
        (new_events streaming_hid_sensor (snd (hid_stop silent_device streaming_hid_sensor)))
   \<and> is_streaming streaming_uvc_sensor
   \<and> fst (uvc_stop silent_device streaming_uvc_sensor) = None
   \<and> new_events streaming_uvc_sensor (snd (uvc_stop silent_device streaming_uvc_sensor)) =
        [Store_is_streaming False, Dev_stop_callbacks,
         Timestamp_reader_reset Uvc_timestamp_reader, Raise_on_before_streaming_changes False]"
  by (simp add: new_events_def source_defs base_defs uvc_defs hid_defs example_defs Let_def)

text \<open>
  Claim C10. When \<open>hid_sensor::stop\<close> has returned from a streaming sensor, the frame
  source has been flushed and reset: \<open>flush\<close> was called on exactly the archives that
  were live when \<open>stop\<close> began, and afterwards the frames callback is null, the registry
  of metadata parsers is detached and every archive pointer is null. A flush leaves
  every live archive drained. \<open>uvc_sensor::stop\<close> flushes no archive and leaves the
  frame source, and so the installed callback, as it was.
\<close>

theorem stop_frame_source:
  "(is_streaming h \<and> fst (hid_stop dev h) = None \<longrightarrow>
      get_frames_callback (snd (hid_stop dev h)) = None
      \<and> fs_metadata_parsers (source (snd (hid_stop dev h))) = None
      \<and> (\<forall>kvp \<in> set (fs_archive (source (snd (hid_stop dev h)))). snd kvp = None)
      \<and> (\<forall>t. Archive_flush t \<in> set (new_events h (snd (hid_stop dev h)))
             \<longleftrightarrow> (\<exists>ar. (t, Some ar) \<in> set (fs_archive (source h)))))
   \<and> (\<forall>t ar. (t, Some ar) \<in> set (fs_archive (snd (flush src))) \<longrightarrow> ar_published ar = 0)
   \<and> (is_streaming u \<longrightarrow>
      source (snd (uvc_stop dev u)) = source u
      \<and> get_frames_callback (snd (uvc_stop dev u)) = get_frames_callback u
      \<and> (\<forall>t. Archive_flush t \<notin> set (new_events u (snd (uvc_stop dev u)))))"
proof -
  have hid_state: "get_frames_callback (snd (hid_stop dev h)) = None
      \<and> fs_metadata_parsers (source (snd (hid_stop dev h))) = None
      \<and> (\<forall>kvp \<in> set (fs_archive (source (snd (hid_stop dev h)))). snd kvp = None)"
    if "is_streaming h" "fst (hid_stop dev h) = None"
    using that
    by (auto simp: hid_stop_def base_defs reset_def get_callback_def
        hid_timestamp_readers_reset_def Let_def case_prod_beta split: option.splits)
  have hid_flush: "Archive_flush t \<in> set (new_events h (snd (hid_stop dev h)))
             \<longleftrightarrow> (\<exists>ar. (t, Some ar) \<in> set (fs_archive (source h)))"
    if "is_streaming h" "fst (hid_stop dev h) = None" for t
    using hid_stop_events[OF that(1), of dev] that(2) flush_events[of t "source h"] by simp
  have uvc_state: "source (snd (uvc_stop dev u)) = source u
      \<and> get_frames_callback (snd (uvc_stop dev u)) = get_frames_callback u"
    if "is_streaming u"
    using that
    by (auto simp: uvc_stop_def base_defs uvc_timestamp_reader_reset_def Let_def
        case_prod_beta split: option.splits)
  have uvc_flush: "Archive_flush t \<notin> set (new_events u (snd (uvc_stop dev u)))"
    if "is_streaming u" for t
    using uvc_stop_events[OF that, of dev] by (simp split: if_splits)
  show ?thesis
    using hid_state hid_flush uvc_state uvc_flush flush_drains[of _ _ src] by blast
qed

theorem stop_frame_source_witness:
  "is_streaming streaming_hid_sensor
   \<and> fst (hid_stop silent_device streaming_hid_sensor) = None
   \<and> get_frames_callback streaming_hid_sensor = Some (Frame_callback 1)
   \<and> get_frames_callback (snd (hid_stop silent_device streaming_hid_sensor)) = None
   \<and> fs_metadata_parsers (source streaming_hid_sensor) \<noteq> None
   \<and> fs_metadata_parsers (source (snd (hid_stop silent_device streaming_hid_sensor))) = None
   \<and> map_of (fs_archive (source streaming_hid_sensor)) RS2_EXTENSION_MOTION_FRAME \<noteq> Some None
   \<and> Archive_flush RS2_EXTENSION_MOTION_FRAME
       \<in> set (new_events streaming_hid_sensor
                (snd (hid_stop silent_device streaming_hid_sensor)))
   \<and> length (filter (\<lambda>e. \<exists>t \<in> set supported. e = Archive_flush t)
               (new_events streaming_hid_sensor
                  (snd (hid_stop silent_device streaming_hid_sensor)))) = 7
   \<and> is_streaming streaming_uvc_sensor
   \<and> fst (uvc_stop silent_device streaming_uvc_sensor) = None
   \<and> get_frames_callback (snd (uvc_stop silent_device streaming_uvc_sensor))
       = Some (Frame_callback 1)
   \<and> Archive_flush RS2_EXTENSION_DEPTH_FRAME
       \<notin> set (new_events streaming_uvc_sensor
                (snd (uvc_stop silent_device streaming_uvc_sensor)))"
  using stop_frame_source[of streaming_hid_sensor silent_device
      "source streaming_hid_sensor" streaming_uvc_sensor]
  by (simp add: new_events_def source_defs base_defs uvc_defs hid_defs example_defs Let_def)

subsection \<open>The power reference count\<close>

lemma run_power_append:
  "run_power dev (xs @ ys) s =
     (case run_power dev xs s of
        (Some e, s') \<Rightarrow> (Some e, s')
      | (None, s') \<Rightarrow> run_power dev ys s')"
proof (induction xs arbitrary: s)
  case Nil
  then show ?case by simp
next
  case (Cons c cs)
  then show ?case
    by (cases c) (simp_all add: case_prod_beta split: option.splits)
qed

lemma acquire_power_held:
  "user_count s \<noteq> 0 \<Longrightarrow> acquire_power dev s = (None, s\<lparr>user_count := user_count s + 1\<rparr>)"
  by (simp add: acquire_power_def Let_def)

lemma release_power_held:
  "user_count s \<noteq> 1 \<Longrightarrow> release_power dev s = (None, s\<lparr>user_count := user_count s - 1\<rparr>)"
  by (simp add: release_power_def Let_def)

lemma call_all_trace:
  "fst (call_all dev cs s) = None \<Longrightarrow> trace (snd (call_all dev cs s)) = trace s @ cs"
  by (induction cs arbitrary: s) (auto simp: call_def emit_def split: option.splits)

lemma call_all_rest [simp]:
  "user_count (snd (call_all dev cs s)) = user_count s"
  "xus (snd (call_all dev cs s)) = xus s"
  "log_lines (snd (call_all dev cs s)) = log_lines s"
  by (induction cs arbitrary: s; simp add: call_def emit_def split: option.splits)+

lemma acquire_power_first:
  assumes "user_count s = 0" "fst (acquire_power dev s) = None"
  shows "user_count (snd (acquire_power dev s)) = 1"
    and "trace (snd (acquire_power dev s)) =
           trace s @ Dev_set_power_state D0 # map Dev_init_xu (xus s)"
    and "xus (snd (acquire_power dev s)) = xus s"
proof -
  let ?cs = "Dev_set_power_state D0 # map Dev_init_xu (xus s)"
  let ?r = "call_all dev ?cs (s\<lparr>user_count := 1\<rparr>)"
  have r: "fst ?r = None"
    using assms by (simp add: acquire_power_def Let_def case_prod_beta split: option.splits)
  then have a: "acquire_power dev s = (None, snd ?r)"
    using assms(1) by (simp add: acquire_power_def Let_def case_prod_beta)
  show "user_count (snd (acquire_power dev s)) = 1"
    unfolding a by (simp del: call_all.simps)
  show "xus (snd (acquire_power dev s)) = xus s"
    unfolding a by (simp del: call_all.simps)
  show "trace (snd (acquire_power dev s)) = trace s @ ?cs"
    unfolding a using call_all_trace[OF r] by (simp del: call_all.simps)
qed

lemma acquires_held:
  "0 < user_count s \<Longrightarrow>
   run_power dev (replicate n Acquire) s = (None, s\<lparr>user_count := user_count s + int n\<rparr>)"
proof (induction n arbitrary: s)
  case 0
  then show ?case by simp
next
  case (Suc n)
  have "0 < user_count (s\<lparr>user_count := user_count s + 1\<rparr>)" using Suc.prems by simp
  from Suc.IH[OF this] show ?case
    using Suc.prems by (simp add: acquire_power_held add.assoc)
qed

lemma releases_held:
  "int n < user_count s \<Longrightarrow>
   run_power dev (replicate n Release) s = (None, s\<lparr>user_count := user_count s - int n\<rparr>)"
proof (induction n arbitrary: s)
  case 0
  then show ?case by simp
next
  case (Suc n)
  have "int n < user_count (s\<lparr>user_count := user_count s - 1\<rparr>)" using Suc.prems by simp
  from Suc.IH[OF this] show ?case
    using Suc.prems by (simp add: release_power_held algebra_simps)
qed

lemma release_power_last:
  assumes "user_count s = 1"
  shows "user_count (snd (release_power dev s)) = 0"
    and "trace (snd (release_power dev s)) = trace s @ [Dev_set_power_state D3]"
  using assms
  by (simp_all add: release_power_def Let_def case_prod_beta call_def emit_def write_log_def
      split: option.splits)

lemma acquires_then_releases:
  assumes "user_count s = 0" "0 < n" "fst (acquire_power dev s) = None"
  shows "fst (run_power dev (replicate n Acquire @ replicate n Release) s) = None"
    and "new_events s (snd (run_power dev (replicate n Acquire @ replicate n Release) s)) =
           Dev_set_power_state D0 # map Dev_init_xu (xus s) @ [Dev_set_power_state D3]"
    and "user_count (snd (run_power dev (replicate n Acquire @ replicate n Release) s)) = 0"
proof -
  obtain m where n: "n = Suc m" using assms(2) by (cases n) auto
  obtain s1 where s1: "acquire_power dev s = (None, s1)"
    using assms(3) by (cases "acquire_power dev s") auto
  have c1: "user_count s1 = 1"
    and t1: "trace s1 = trace s @ Dev_set_power_state D0 # map Dev_init_xu (xus s)"
    using acquire_power_first[OF assms(1,3)] s1 by simp_all
  let ?s2 = "s1\<lparr>user_count := 1 + int m\<rparr>"
  have a: "run_power dev (replicate n Acquire) s = (None, ?s2)"
    using acquires_held[of s1 dev m] c1 by (simp add: n s1)
  let ?s3 = "s1\<lparr>user_count := 1\<rparr>"
  have "run_power dev (replicate m Release) ?s2 = (None, ?s2\<lparr>user_count := user_count ?s2 - int m\<rparr>)"
    by (rule releases_held) simp
  then have r: "run_power dev (replicate m Release) ?s2 = (None, ?s3)" by simp
  have "replicate n Release = replicate m Release @ [Release]"
    by (simp add: n replicate_append_same)
  then have run: "run_power dev (replicate n Acquire @ replicate n Release) s =
      (fst (release_power dev ?s3), snd (release_power dev ?s3))"
    by (simp add: run_power_append a r case_prod_beta split: option.splits)
  show "fst (run_power dev (replicate n Acquire @ replicate n Release) s) = None"
    unfolding run by simp
  show "user_count (snd (run_power dev (replicate n Acquire @ replicate n Release) s)) = 0"
    unfolding run using release_power_last(1)[of ?s3 dev] by simp
  show "new_events s (snd (run_power dev (replicate n Acquire @ replicate n Release) s)) =
           Dev_set_power_state D0 # map Dev_init_xu (xus s) @ [Dev_set_power_state D3]"
    unfolding run using release_power_last(2)[of ?s3 dev] t1 by (simp add: new_events_def)
qed

lemma call_all_events:
  "\<exists>cs'. trace (snd (call_all dev cs s)) = trace s @ cs' \<and> set cs' \<subseteq> set cs
     \<and> (cs \<noteq> [] \<longrightarrow> hd cs \<in> set cs')"
proof (induction cs arbitrary: s)
  case Nil
  then show ?case by simp
next
  case (Cons c cs)
  show ?case
  proof (cases "dev (trace s) c")
    case None
    obtain cs' where "trace (snd (call_all dev cs (emit c s))) = trace (emit c s) @ cs'"
      "set cs' \<subseteq> set cs"
      using Cons.IH[of "emit c s"] by blast
    then show ?thesis using None
      by (intro exI[of _ "c # cs'"]) (auto simp: call_def emit_def)
  next
    case (Some e)
    then show ?thesis by (intro exI[of _ "[c]"]) (simp add: call_def emit_def)
  qed
qed

lemma power_on_issued:
  "Dev_set_power_state D0 \<in> set (new_events s (snd (acquire_power dev s))) \<longleftrightarrow> user_count s = 0"
proof (cases "user_count s = 0")
  case False
  then show ?thesis by (simp add: acquire_power_held new_events_def)
next
  case True
  let ?cs = "Dev_set_power_state D0 # map Dev_init_xu (xus s)"
  obtain cs' where cs': "trace (snd (call_all dev ?cs (s\<lparr>user_count := 1\<rparr>))) = trace s @ cs'"
    "Dev_set_power_state D0 \<in> set cs'"
    using call_all_events[of dev ?cs "s\<lparr>user_count := 1\<rparr>"] by auto
  have "trace (snd (acquire_power dev s)) = trace s @ cs'"
    using True cs'(1)
    by (simp add: acquire_power_def Let_def case_prod_beta write_log_def del: call_all.simps
        split: option.splits)
  then show ?thesis using True cs'(2) by (simp add: new_events_def)
qed

lemma power_off_issued:
  "Dev_set_power_state D3 \<in> set (new_events s (snd (release_power dev s))) \<longleftrightarrow> user_count s = 1"
  by (simp add: release_power_def Let_def case_prod_beta call_def emit_def write_log_def
      new_events_def split: option.splits)

lemma acquire_power_failure:
  assumes "fst (acquire_power dev s) = Some e"
  shows "user_count (snd (acquire_power dev s)) = user_count s"
    and "\<exists>h c. dev h c = Some e"
    and "log_lines (snd (acquire_power dev s)) =
           log_lines s @ [(LOG_ERROR, if is_std_exception e then ''acquire_power failed: '' @ what e
                                      else ''acquire_power failed'')]"
  using assms acquire_power_error[OF assms]
  by (simp_all add: acquire_power_def Let_def case_prod_beta write_log_def
      del: call_all.simps split: option.splits if_splits)

lemma release_power_failure:
  assumes "user_count s = 1" "dev (trace s) (Dev_set_power_state D3) = Some e"
  shows "log_lines (snd (release_power dev s)) =
           log_lines s @ [(LOG_ERROR, if is_std_exception e then ''release_power failed: '' @ what e
                                      else ''release_power failed'')]"
  using assms
  by (simp add: release_power_def Let_def case_prod_beta write_log_def call_def emit_def)

lemma release_power_count:
  "user_count (snd (release_power dev s)) = user_count s - 1"
  by (simp add: release_power_def Let_def case_prod_beta write_log_def call_def emit_def
      split: option.splits)

text \<open>
  Claim C5, amended. An \<open>acquire_power\<close> issues the power-on exactly when it finds the
  count at 0, and a \<open>release_power\<close> issues the power-off exactly when it finds the
  count at 1. So n > 0 acquisitions followed by n releases, from a count of 0 and with a
  power-on that does not throw, issue one power-on (\<open>set_power_state(D0)\<close>, then
  \<open>init_xu\<close> for each registered extension unit) and one power-off, and end at a count
  of 0; an interleaving in which the count comes back to 0 in between issues one pair
  for each time it does. When the power-on throws, the count is back at its value before
  the call, the line is logged and the exception of the transport is the one thrown. A
  release never throws: a power-off that throws is logged, and the count stays
  decremented.
\<close>

theorem power_reference_count:
  "(Dev_set_power_state D0 \<in> set (new_events s (snd (acquire_power dev s)))
      \<longleftrightarrow> user_count s = 0)
   \<and> (Dev_set_power_state D3 \<in> set (new_events s (snd (release_power dev s)))
      \<longleftrightarrow> user_count s = 1)
   \<and> (user_count s = 0 \<and> 0 < n \<and> fst (acquire_power dev s) = None \<longrightarrow>
        fst (run_power dev (replicate n Acquire @ replicate n Release) s) = None
        \<and> new_events s (snd (run_power dev (replicate n Acquire @ replicate n Release) s)) =
             Dev_set_power_state D0 # map Dev_init_xu (xus s) @ [Dev_set_power_state D3]
        \<and> user_count (snd (run_power dev (replicate n Acquire @ replicate n Release) s)) = 0)
   \<and> (\<forall>e. fst (acquire_power dev s) = Some e \<longrightarrow>
        user_count (snd (acquire_power dev s)) = user_count s
        \<and> (\<exists>h c. dev h c = Some e)
        \<and> log_lines (snd (acquire_power dev s)) =
             log_lines s @ [(LOG_ERROR, if is_std_exception e
                                        then ''acquire_power failed: '' @ what e
                                        else ''acquire_power failed'')])
   \<and> fst (release_power dev s) = None
   \<and> user_count (snd (release_power dev s)) = user_count s - 1
   \<and> (\<forall>e. user_count s = 1 \<and> dev (trace s) (Dev_set_power_state D3) = Some e \<longrightarrow>
        log_lines (snd (release_power dev s)) =
          log_lines s @ [(LOG_ERROR, if is_std_exception e
                                     then ''release_power failed: '' @ what e
                                     else ''release_power failed'')])"
  using power_on_issued[of s dev] power_off_issued[of s dev]
    acquires_then_releases[of s n dev] acquire_power_failure[of dev s]
    release_power_returns[of dev s] release_power_count[of dev s] release_power_failure[of s dev]
  by blast

theorem power_reference_count_witness:
  "user_count (new_uvc_sensor [7]) = 0 \<and> (0::nat) < 3
   \<and> fst (acquire_power silent_device (new_uvc_sensor [7])) = None
   \<and> new_events (new_uvc_sensor [7])
        (snd (run_power silent_device (replicate 3 Acquire @ replicate 3 Release)
                (new_uvc_sensor [7]))) =
        [Dev_set_power_state D0, Dev_init_xu 7, Dev_set_power_state D3]
   \<and> fst (acquire_power
             (failing_device [(Dev_set_power_state D0, backend_exception ''no power'')])
             (new_uvc_sensor [7]))
        = Some (backend_exception ''no power'')
   \<and> user_count
        (snd (acquire_power
                (failing_device [(Dev_set_power_state D0, backend_exception ''no power'')])
                (new_uvc_sensor [7]))) = 0
   \<and> user_count (snd (acquire_power silent_device (new_uvc_sensor [7]))) = 1
   \<and> failing_device [(Dev_set_power_state D3, backend_exception ''gone'')]
        (trace (snd (acquire_power silent_device (new_uvc_sensor [7]))))
        (Dev_set_power_state D3) = Some (backend_exception ''gone'')
   \<and> fst (release_power (failing_device [(Dev_set_power_state D3, backend_exception ''gone'')])
             (snd (acquire_power silent_device (new_uvc_sensor [7])))) = None
   \<and> log_lines
        (snd (release_power
                (failing_device [(Dev_set_power_state D3, backend_exception ''gone'')])
                (snd (acquire_power silent_device (new_uvc_sensor [7])))))
       = [(LOG_ERROR, ''release_power failed: gone'')]"
  using power_reference_count[of "new_uvc_sensor [7]" silent_device 3]
    power_reference_count[of "new_uvc_sensor [7]"
      "failing_device [(Dev_set_power_state D0, backend_exception ''no power'')]" 0]
    power_reference_count[of "snd (acquire_power silent_device (new_uvc_sensor [7]))"
      "failing_device [(Dev_set_power_state D3, backend_exception ''gone'')]" 0]
  by (simp add: base_defs acquire_power_def release_power_def example_defs Let_def)

text \<open>
  Two acquisitions and two releases, interleaved so that the count returns to 0 in
  between, issue two power-ons and two power-offs.
\<close>

theorem power_interleaving_counterexample:
  "fst (run_power silent_device [Acquire, Release, Acquire, Release] (new_uvc_sensor [7])) = None
   \<and> count_list (trace (snd (run_power silent_device [Acquire, Release, Acquire, Release]
                                 (new_uvc_sensor [7]))))
        (Dev_set_power_state D0) = 2
   \<and> count_list (trace (snd (run_power silent_device [Acquire, Release, Acquire, Release]
                                 (new_uvc_sensor [7]))))
        (Dev_set_power_state D3) = 2"
  by (simp add: base_defs acquire_power_def release_power_def example_defs Let_def)

subsection \<open>The frame source: callbacks and allocation\<close>

text \<open>
  Claim C9. For every frame, frame source and handler of the application,
  \<open>invoke_callback\<close> returns: no exception leaves it. When the holder has a frame with
  an owner and a callback is registered, the frame is swapped out of the holder before
  the handler is called with it, the holder is empty afterwards, and an exception of
  the handler is caught and logged as an error. Otherwise nothing happens.
\<close>

theorem invoke_callback_exception_safe:
  "fst (invoke_callback handlers src holder) = Returned
   \<and> (\<forall>f callback. holder = Some f \<and> fr_owner f \<and> fs_callback src = Some callback \<longrightarrow>
        fst (snd (invoke_callback handlers src holder)) = None
        \<and> fst (snd (snd (invoke_callback handlers src holder))) =
             [Swap_frame_out f, On_frame callback f]
        \<and> snd (snd (snd (invoke_callback handlers src holder))) =
             (case handlers callback f of
                Handler_returns \<Rightarrow> []
              | Handler_throws_std msg \<Rightarrow>
                  [(LOG_ERROR, ''Exception was thrown during user callback: '' @ msg)]
              | Handler_throws_other \<Rightarrow>
                  [(LOG_ERROR, ''Exception was thrown during user callback!'')]))
   \<and> (holder = None \<or> (\<exists>f. holder = Some f \<and> \<not> fr_owner f) \<or> fs_callback src = None \<longrightarrow>
        snd (invoke_callback handlers src holder) = (holder, [], []))"
  by (auto simp: invoke_callback_def split: option.splits handler_result.splits)

theorem invoke_callback_exception_safe_witness:
  "fr_owner example_frame
   \<and> fs_callback (set_callback (Some (Frame_callback 1)) (new_frame_source 16))
       = Some (Frame_callback 1)
   \<and> invoke_callback throwing_handlers
        (set_callback (Some (Frame_callback 1)) (new_frame_source 16)) (Some example_frame) =
       (Returned, None, [Swap_frame_out example_frame, On_frame (Frame_callback 1) example_frame],
        [(LOG_ERROR, ''Exception was thrown during user callback: handler failed'')])
   \<and> invoke_callback throwing_handlers (new_frame_source 16) (Some example_frame) =
       (Returned, Some example_frame, [], [])"
  using invoke_callback_exception_safe[of throwing_handlers
      "set_callback (Some (Frame_callback 1)) (new_frame_source 16)" "Some example_frame"]
    invoke_callback_exception_safe[of throwing_handlers "new_frame_source 16" "Some example_frame"]
  by (simp add: invoke_callback_def source_defs example_defs example_frame_def
      throwing_handlers_def)

lemma map_of_fold_update:
  "map_of (fold (\<lambda>t ars. AList.update t (g t) ars) ts ars) t =
     (if t \<in> set ts then Some (g t) else map_of ars t)"
  by (induction ts arbitrary: ars) (auto simp: update_conv')

lemma init_archive:
  "map_of (fs_archive (init parsers (new_frame_source m))) type =
     (if type \<in> set supported then Some (Some (make_archive type parsers)) else None)"
  by (simp add: init_def new_frame_source_def map_of_fold_update)

lemma alloc_frame_unsupported:
  "map_of (fs_archive src) type = None \<Longrightarrow>
   alloc_frame src type sz ad mem =
     (Threw (wrong_api_call_sequence_exception ''Requested frame type is not supported!''),
      None, src)"
  by (simp add: alloc_frame_def)

lemma alloc_frame_exhausted:
  "map_of (fs_archive src) type = Some (Some ar) \<Longrightarrow>
   unat (fs_max_publish_list_size src) \<le> ar_published ar \<Longrightarrow>
   alloc_frame src type sz ad mem = (Returned, None, src)"
  by (simp add: alloc_frame_def alloc_and_track_def update_triv)

lemma alloc_frame_tracked:
  assumes "map_of (fs_archive src) type = Some (Some ar)"
    "ar_published ar < unat (fs_max_publish_list_size src)"
  shows "fst (alloc_frame src type sz ad mem) = Returned"
    and "\<exists>f. fst (snd (alloc_frame src type sz ad mem)) = Some f \<and> fr_owner f
           \<and> fr_type f = ar_type ar \<and> fr_additional_data f = ad
           \<and> length (fr_data f) = (if mem then sz else 0)"
    and "map_of (fs_archive (snd (snd (alloc_frame src type sz ad mem)))) type =
           Some (Some (ar\<lparr>ar_published := Suc (ar_published ar)\<rparr>))"
  using assms by (simp_all add: alloc_frame_def alloc_and_track_def update_conv')

text \<open>
  Claim C4, amended. \<open>alloc_frame\<close> throws \<open>wrong_api_call_sequence_exception\<close> when the
  frame source has no archive for the requested type, which after \<open>init\<close> is every type
  outside the seven that \<open>init\<close> creates. For a type with an archive it returns without
  an error: a null result when the pool is exhausted, with the source as it was, and
  otherwise a new frame of the requested size that the archive tracks.
\<close>

theorem alloc_frame_result:
  "(map_of (fs_archive src) type = None \<longrightarrow>
      alloc_frame src type sz ad mem =
        (Threw (wrong_api_call_sequence_exception ''Requested frame type is not supported!''),
         None, src))
   \<and> (type \<notin> set supported \<longrightarrow>
        map_of (fs_archive (init parsers (new_frame_source m))) type = None)
   \<and> (type \<in> set supported \<longrightarrow>
        map_of (fs_archive (init parsers (new_frame_source m))) type
          = Some (Some (make_archive type parsers)))
   \<and> (\<forall>ar. map_of (fs_archive src) type = Some (Some ar)
           \<and> unat (fs_max_publish_list_size src) \<le> ar_published ar \<longrightarrow>
        alloc_frame src type sz ad mem = (Returned, None, src))
   \<and> (\<forall>ar. map_of (fs_archive src) type = Some (Some ar)
           \<and> ar_published ar < unat (fs_max_publish_list_size src) \<longrightarrow>
        fst (alloc_frame src type sz ad mem) = Returned
        \<and> (\<exists>f. fst (snd (alloc_frame src type sz ad mem)) = Some f \<and> fr_owner f
               \<and> fr_type f = ar_type ar \<and> fr_additional_data f = ad
               \<and> length (fr_data f) = (if mem then sz else 0))
        \<and> map_of (fs_archive (snd (snd (alloc_frame src type sz ad mem)))) type =
             Some (Some (ar\<lparr>ar_published := Suc (ar_published ar)\<rparr>)))"
  using alloc_frame_unsupported[of src type sz ad mem] init_archive[of parsers m type]
    alloc_frame_exhausted[of src type _ sz ad mem] alloc_frame_tracked[of src type _ sz ad mem]
  by presburger

theorem alloc_frame_result_witness:
  "map_of (fs_archive (init (Some []) (new_frame_source 1))) RS2_EXTENSION_UNKNOWN = None
   \<and> RS2_EXTENSION_UNKNOWN \<notin> set supported
   \<and> RS2_EXTENSION_DEPTH_FRAME \<in> set supported
   \<and> map_of (fs_archive (init (Some []) (new_frame_source 1))) RS2_EXTENSION_DEPTH_FRAME
       = Some (Some (make_archive RS2_EXTENSION_DEPTH_FRAME (Some [])))
   \<and> ar_published (make_archive RS2_EXTENSION_DEPTH_FRAME (Some []))
       < unat (fs_max_publish_list_size (init (Some []) (new_frame_source 1)))
   \<and> fst (alloc_frame (init (Some []) (new_frame_source 1)) RS2_EXTENSION_DEPTH_FRAME 8
             example_additional_data True) = Returned
   \<and> fst (snd (alloc_frame (init (Some []) (new_frame_source 1)) RS2_EXTENSION_DEPTH_FRAME 8
                  example_additional_data True)) \<noteq> None
   \<and> fst (snd (alloc_frame
                  (snd (snd (alloc_frame (init (Some []) (new_frame_source 1))
                               RS2_EXTENSION_DEPTH_FRAME 8 example_additional_data True)))
                  RS2_EXTENSION_DEPTH_FRAME 8 example_additional_data True)) = None"
  using alloc_frame_result[of "init (Some []) (new_frame_source 1)" RS2_EXTENSION_DEPTH_FRAME
      8 example_additional_data True "Some []" 1]
    alloc_frame_result[of "init (Some []) (new_frame_source 1)" RS2_EXTENSION_UNKNOWN
      8 example_additional_data True "Some []" 1]
  by (simp add: alloc_frame_def alloc_and_track_def source_defs example_defs)

text \<open>
  A frame type without an archive is answered with an exception, not with a null
  result.
\<close>

theorem alloc_frame_unsupported_counterexample:
  "alloc_frame (init (Some []) (new_frame_source 16)) RS2_EXTENSION_UNKNOWN 8
     example_additional_data True =
   (Threw (wrong_api_call_sequence_exception ''Requested frame type is not supported!''),
    None, init (Some []) (new_frame_source 16))"
  by (simp add: alloc_frame_def source_defs)

subsection \<open>Rolling back a failed open\<close>

lemma call_all_silent:
  "\<forall>c \<in> set cs. \<forall>h. dev h c = None \<Longrightarrow> call_all dev cs s = (None, s\<lparr>trace := trace s @ cs\<rparr>)"
  by (induction cs arbitrary: s) (simp_all add: call_def emit_def)

text \<open>
  On a transport whose \<open>close\<close> never throws, a commit that throws is followed by the
  close of every profile committed before it, in the order of their commits, and the
  exception of the commit is the one that leaves the loop.
\<close>

lemma commit_profiles_rollback:
  assumes "\<forall>h p. dev h (Dev_close p) = None"
    and "commit_profiles dev reqs commited s = (Some e, commited', s')"
  shows "\<exists>i < length reqs.
           commited' = commited @ map sp_backend_profile (take i reqs)
           \<and> trace s' = trace s
                 @ map (\<lambda>r. Dev_probe_and_commit (sp_backend_profile r)) (take (Suc i) reqs)
                 @ map Dev_close commited'
           \<and> dev (trace s @ map (\<lambda>r. Dev_probe_and_commit (sp_backend_profile r)) (take i reqs))
                 (Dev_probe_and_commit (sp_backend_profile (reqs ! i))) = Some e"
  using assms(2)
proof (induction reqs arbitrary: commited s)
  case Nil
  then show ?case by simp
next
  case (Cons r rs)
  let ?c = "Dev_probe_and_commit (sp_backend_profile r)"
  show ?case
  proof (cases "dev (trace s) ?c")
    case (Some e0)
    have closes: "call_all dev (map Dev_close commited) (emit ?c s) =
        (None, (emit ?c s)\<lparr>trace := trace (emit ?c s) @ map Dev_close commited\<rparr>)"
      by (rule call_all_silent) (use assms(1) in auto)
    from Cons.prems Some have "e = e0" "commited' = commited"
      "s' = (emit ?c s)\<lparr>trace := trace (emit ?c s) @ map Dev_close commited\<rparr>"
      by (auto simp: call_def closes)
    then show ?thesis using Some
      by (intro exI[of _ 0]) (simp add: emit_def)
  next
    case None
    then have "commit_profiles dev rs (commited @ [sp_backend_profile r]) (emit ?c s)
        = (Some e, commited', s')"
      using Cons.prems by (simp add: call_def)
    from Cons.IH[OF this] obtain i where i: "i < length rs"
      "commited' = (commited @ [sp_backend_profile r]) @ map sp_backend_profile (take i rs)"
      "trace s' = trace (emit ?c s)
          @ map (\<lambda>r. Dev_probe_and_commit (sp_backend_profile r)) (take (Suc i) rs)
          @ map Dev_close commited'"
      "dev (trace (emit ?c s) @ map (\<lambda>r. Dev_probe_and_commit (sp_backend_profile r)) (take i rs))
          (Dev_probe_and_commit (sp_backend_profile (rs ! i))) = Some e"
      by blast
    show ?thesis
      using i by (intro exI[of _ "Suc i"]) (simp add: emit_def)
  qed
qed

lemma call_all_power [simp]: "power (snd (call_all dev cs s)) = power s"
  by (induction cs arbitrary: s) (simp_all add: call_def emit_def split: option.splits)

lemma call_all_ignoring_rest [simp]:
  "user_count (call_all_ignoring dev cs s) = user_count s"
  "power (call_all_ignoring dev cs s) = power s"
  by (induction cs arbitrary: s; simp add: call_def emit_def)+

lemma commit_profiles_rest [simp]:
  "user_count (snd (snd (commit_profiles dev reqs commited s))) = user_count s"
  "power (snd (snd (commit_profiles dev reqs commited s))) = power s"
  by (induction reqs arbitrary: commited s;
      simp add: case_prod_beta call_def emit_def split: option.splits)+

lemma reset_streaming_rest [simp]:
  "user_count (reset_streaming s) = user_count s"
  "power (reset_streaming s) = power s"
  by (simp_all add: reset_streaming_def uvc_timestamp_reader_reset_def emit_def
      source_flush_def source_reset_def case_prod_beta)

lemma acquire_power_count:
  "user_count (snd (acquire_power dev s)) =
     (if fst (acquire_power dev s) = None then user_count s + 1 else user_count s)"
  by (simp add: acquire_power_def Let_def case_prod_beta write_log_def del: call_all.simps
      split: option.splits)

lemma acquire_power_power [simp]: "power (snd (acquire_power dev s)) = power s"
  by (simp add: acquire_power_def Let_def case_prod_beta write_log_def del: call_all.simps
      split: option.splits)

lemma release_power_power [simp]: "power (snd (release_power dev s)) = power s"
  by (simp add: release_power_def Let_def case_prod_beta write_log_def call_def emit_def
      split: option.splits)

text \<open>
  However \<open>open\<close> fails on a closed sensor, the sensor is not opened afterwards, its
  active streams and its power count are as before.
\<close>

lemma uvc_open_failure_closed:
  assumes "\<not> is_opened s" "\<not> is_streaming s" "\<not> power s"
    and "fst (uvc_open dev reqs s) = Some e"
  shows "\<not> is_opened (snd (uvc_open dev reqs s))"
    and "\<not> is_streaming (snd (uvc_open dev reqs s))"
    and "active_profiles (snd (uvc_open dev reqs s)) = active_profiles s"
    and "user_count (snd (uvc_open dev reqs s)) = user_count s"
    and "\<not> power (snd (uvc_open dev reqs s))"
  using assms
  by (simp_all add: uvc_open_def Let_def case_prod_beta call_def emit_def set_active_streams_def
      power_reset_def release_power_count acquire_power_count
      split: option.splits if_splits)

lemma call_all_ignoring_trace [simp]:
  "trace (call_all_ignoring dev cs s) = trace s @ cs"
  by (induction cs arbitrary: s) (simp_all add: call_def emit_def)

lemma call_all_ignoring_config [simp]:
  "internal_config (call_all_ignoring dev cs s) = internal_config s"
  by (induction cs arbitrary: s) (simp_all add: call_def emit_def)

lemma commit_profiles_success:
  assumes "fst (commit_profiles dev reqs commited s) = None"
  shows "fst (snd (commit_profiles dev reqs commited s)) = commited @ map sp_backend_profile reqs"
    and "trace (snd (snd (commit_profiles dev reqs commited s))) =
           trace s @ map (\<lambda>r. Dev_probe_and_commit (sp_backend_profile r)) reqs"
  using assms
  by (induction reqs arbitrary: commited s;
      simp add: case_prod_beta call_def emit_def split: option.splits)+

lemma call_all_more [simp]:
  "on_open_set (snd (call_all dev cs s)) = on_open_set s"
  "internal_config (snd (call_all dev cs s)) = internal_config s"
  "source (snd (call_all dev cs s)) = source s"
  by (induction cs arbitrary: s; simp add: call_def emit_def split: option.splits)+

lemma call_all_base [simp]:
  "source_owner (snd (call_all dev cs s)) = source_owner s"
  "metadata_parsers (snd (call_all dev cs s)) = metadata_parsers s"
  by (induction cs arbitrary: s; simp add: call_def emit_def split: option.splits)+

lemma call_all_ignoring_source [simp]:
  "source (call_all_ignoring dev cs s) = source s"
  by (induction cs arbitrary: s) (simp_all add: call_def emit_def)

lemma commit_profiles_on_open [simp]:
  "on_open_set (snd (snd (commit_profiles dev reqs commited s))) = on_open_set s"
  "source (snd (snd (commit_profiles dev reqs commited s))) = source s"
  by (induction reqs arbitrary: commited s;
      simp add: case_prod_beta call_def emit_def split: option.splits)+

lemma acquire_power_base [simp]:
  "source (snd (acquire_power dev s)) = source s"
  "source_owner (snd (acquire_power dev s)) = source_owner s"
  "metadata_parsers (snd (acquire_power dev s)) = metadata_parsers s"
  by (simp_all add: acquire_power_def Let_def case_prod_beta write_log_def
      del: call_all.simps split: option.splits)

lemma acquire_power_on_open [simp]: "on_open_set (snd (acquire_power dev s)) = on_open_set s"
  by (simp add: acquire_power_def Let_def case_prod_beta write_log_def del: call_all.simps
      split: option.splits)

text \<open>
  When \<open>stream_on\<close> throws after every commit went through, every committed profile
  is closed (an exception of a close is swallowed), the frame source is flushed and
  reset with the timestamp reader, and the power is released; the error thrown is a \<open>std::runtime_error\<close>.
\<close>

lemma uvc_open_stream_on_failure:
  assumes closed: "\<not> is_opened s" "\<not> is_streaming s" "user_count s = 0"
    and acquired: "fst (acquire_power dev s) = None"
    and verified: "verify_supported_requests reqs = None"
    and commits: "fst (commit_profiles dev reqs []
                        ((snd (acquire_power dev s))
                         \<lparr>source := set_sensor (source_owner (snd (acquire_power dev s)))
                            (init (Some (metadata_parsers (snd (acquire_power dev s))))
                               (source (snd (acquire_power dev s))))\<rparr>)) = None"
    and stream_on: "\<forall>h. dev h Dev_stream_on \<noteq> None"
  shows "is_runtime_error (the (fst (uvc_open dev reqs s)))"
    and "new_events s (snd (uvc_open dev reqs s)) =
           Dev_set_power_state D0 # map Dev_init_xu (xus s)
           @ map (\<lambda>r. Dev_probe_and_commit (sp_backend_profile r)) reqs
           @ (if on_open_set s then [On_open (map sp_backend_profile reqs)] else [])
           @ [Dev_stream_on]
           @ map (\<lambda>r. Dev_close (sp_backend_profile r)) reqs
           @ fst (flush (set_sensor (source_owner s)
                           (init (Some (metadata_parsers s)) (source s))))
           @ [Timestamp_reader_reset Uvc_timestamp_reader, Dev_set_power_state D3]"
proof -
  let ?s1 = "snd (acquire_power dev s)"
  let ?s2 = "?s1\<lparr>source := set_sensor (source_owner ?s1)
                 (init (Some (metadata_parsers ?s1)) (source ?s1))\<rparr>"
  let ?c = "commit_profiles dev reqs [] ?s2"
  have t1: "trace ?s1 = trace s @ Dev_set_power_state D0 # map Dev_init_xu (xus s)"
    and c1: "user_count ?s1 = 1"
    using acquire_power_first[OF closed(3) acquired] by simp_all
  have c: "fst (snd ?c) = map sp_backend_profile reqs"
    "trace (snd (snd ?c)) = trace ?s2 @ map (\<lambda>r. Dev_probe_and_commit (sp_backend_profile r)) reqs"
    using commit_profiles_success[OF commits] by simp_all
  have so: "\<And>h. (dev h Dev_stream_on = None) = False" using stream_on by auto
  show "is_runtime_error (the (fst (uvc_open dev reqs s)))"
    using closed acquired verified commits
    by (auto simp: uvc_open_def Let_def case_prod_beta call_def so split: option.splits)
  show "new_events s (snd (uvc_open dev reqs s)) =
           Dev_set_power_state D0 # map Dev_init_xu (xus s)
           @ map (\<lambda>r. Dev_probe_and_commit (sp_backend_profile r)) reqs
           @ (if on_open_set s then [On_open (map sp_backend_profile reqs)] else [])
           @ [Dev_stream_on]
           @ map (\<lambda>r. Dev_close (sp_backend_profile r)) reqs
           @ fst (flush (set_sensor (source_owner s)
                           (init (Some (metadata_parsers s)) (source s))))
           @ [Timestamp_reader_reset Uvc_timestamp_reader, Dev_set_power_state D3]"
    using closed acquired verified commits c t1 c1
    apply (simp add: uvc_open_def Let_def case_prod_beta call_def new_events_def so
        split: option.splits)
    apply (auto simp: emit_def power_reset_def reset_streaming_def uvc_timestamp_reader_reset_def
        release_power_def Let_def call_def write_log_def comp_def split: option.splits)
    done
qed

text \<open>
  Claim C6, at a transport that is unplugged during \<open>open\<close>: the commit of the third
  profile throws and so does the close of the first. The handler of the commit loop
  leaves at the close that throws: the second profile, committed before, is never
  closed, and the exception that leaves \<open>open\<close> is the one of the close. The sensor
  stays not opened, with no active stream and the power released.
\<close>

theorem open_rollback_stops_at_failing_close:
  "fst (uvc_open disconnecting_device [depth_profile, color_profile, infrared_profile]
          (new_uvc_sensor [7])) = Some (backend_exception ''close failed'')
   \<and> trace (snd (uvc_open disconnecting_device [depth_profile, color_profile, infrared_profile]
                    (new_uvc_sensor [7]))) =
       [Dev_set_power_state D0, Dev_init_xu 7,
        Dev_probe_and_commit (sp_backend_profile depth_profile),
        Dev_probe_and_commit (sp_backend_profile color_profile),
        Dev_probe_and_commit (sp_backend_profile infrared_profile),
        Dev_close (sp_backend_profile depth_profile),
        Dev_set_power_state D3]
   \<and> Dev_close (sp_backend_profile color_profile)
       \<notin> set (trace (snd (uvc_open disconnecting_device
                               [depth_profile, color_profile, infrared_profile]
                               (new_uvc_sensor [7]))))
   \<and> \<not> is_opened (snd (uvc_open disconnecting_device
                            [depth_profile, color_profile, infrared_profile]
                            (new_uvc_sensor [7])))
   \<and> active_profiles (snd (uvc_open disconnecting_device
                                [depth_profile, color_profile, infrared_profile]
                                (new_uvc_sensor [7]))) = []
   \<and> user_count (snd (uvc_open disconnecting_device
                           [depth_profile, color_profile, infrared_profile]
                           (new_uvc_sensor [7]))) = 0"
  by (simp add: source_defs base_defs uvc_defs example_defs color_profile_def
      infrared_profile_def disconnecting_device_def Let_def)

subsection \<open>Copying the payload of a raw buffer\<close>

lemma insert_rows_all:
  "\<forall>j \<in> set js. row j = Some (g j) \<Longrightarrow>
   insert_rows row js pixels = Some (pixels @ concat (map g js))"
  by (induction js arbitrary: pixels) simp_all

lemma length_concat_rows:
  "\<forall>x \<in> set xs. length (f x) = n \<Longrightarrow> length (concat (map f xs)) = length xs * n"
  by (induction xs) simp_all

text \<open>
  On a buffer that holds every padded row, \<open>align_width_to_64\<close> returns the rows of
  \<open>width * (bpp >> 3)\<close> bytes read at the stride of the next multiple of 64; when
  \<open>bpp\<close> is a multiple of 8 these are the \<open>width*height*bpp/8\<close> bytes that are expected.
\<close>

lemma align_width_to_64_rows:
  fixes width height bpp :: nat and pix :: "byte list"
  defines "row \<equiv> width * (bpp div 8)"
  defines "stride \<equiv> (row div 64 + 1) * 64"
  assumes long: "height = 0 \<or> (height - 1) * stride + row \<le> length pix"
  shows "align_width_to_64 width height bpp pix =
           Some (concat (map (\<lambda>j. take row (drop (j * stride) pix)) [0..<height]))"
    and "length (concat (map (\<lambda>j. take row (drop (j * stride) pix)) [0..<height]))
           = height * row"
proof -
  have fits: "row + j * stride \<le> length pix" if "j < height" for j
  proof -
    have "j \<le> height - 1" using that by simp
    then have "j * stride \<le> (height - 1) * stride" by (rule mult_le_mono1)
    moreover have "(height - 1) * stride + row \<le> length pix" using long that by auto
    ultimately show ?thesis by linarith
  qed
  have "\<forall>j \<in> set [0..<height].
          copy_row row stride pix j = Some (take row (drop (j * stride) pix))"
    using fits by (simp add: copy_row_def)
  from insert_rows_all[OF this, of "[]"]
  show "align_width_to_64 width height bpp pix =
           Some (concat (map (\<lambda>j. take row (drop (j * stride) pix)) [0..<height]))"
    by (simp add: align_width_to_64_def row_def stride_def drop_bit_eq_div Let_def)
  have "length (take row (drop (j * stride) pix)) = row" if "j < height" for j
    using fits[OF that] by simp
  then have "\<forall>j \<in> set [0..<height]. length (take row (drop (j * stride) pix)) = row"
    by simp
  from length_concat_rows[OF this]
  show "length (concat (map (\<lambda>j. take row (drop (j * stride) pix)) [0..<height]))
           = height * row"
    by simp
qed

lemma expected_size_multiple_of_8:
  "bpp mod 8 = 0 \<Longrightarrow>
   compute_frame_expected_size width height bpp = height * (width * (bpp div 8))
   \<and> drop_bit 3 (width * bpp) = width * (bpp div 8)"
proof -
  assume "bpp mod 8 = 0"
  then have "bpp = 8 * (bpp div 8)" by presburger
  then obtain k where k: "bpp = 8 * k" ..
  have "width * height * (8 * k) div 8 = height * (width * k)"
    by (simp add: algebra_simps)
  moreover have "width * (8 * k) div 8 = width * k"
    by (simp add: algebra_simps)
  ultimately show ?thesis
    by (simp add: compute_frame_expected_size_def drop_bit_eq_div k)
qed

text \<open>
  So for a bit count that is a multiple of 8 the copy of a padded buffer gives the frame
  the unpadded rows, and in every other case the copy is a flat range of the raw buffer.
\<close>

lemma copy_payload_padded:
  fixes width height bpp :: nat and f :: frame_object
  defines "row \<equiv> width * (bpp div 8)"
  defines "stride \<equiv> (row div 64 + 1) * 64"
  assumes "bpp mod 8 = 0" "row mod 64 \<noteq> 0"
    and "compute_frame_expected_size width height bpp < fo_frame_size f"
    and "height = 0 \<or> (height - 1) * stride + row \<le> length (fo_pixels f)"
    and "length frame_data = compute_frame_expected_size width height bpp"
  shows "copy_payload width height bpp (compute_frame_expected_size width height bpp) format f
           frame_data =
         Some (concat (map (\<lambda>j. take row (drop (j * stride) (fo_pixels f))) [0..<height]))"
proof -
  let ?rows = "concat (map (\<lambda>j. take row (drop (j * stride) (fo_pixels f))) [0..<height])"
  have a: "align_width_to_64 width height bpp (fo_pixels f) = Some ?rows"
    and l: "length ?rows = height * row"
    using align_width_to_64_rows[of height width bpp "fo_pixels f"] assms(6)
    by (simp_all add: row_def stride_def)
  have e: "compute_frame_expected_size width height bpp = height * row"
    "drop_bit 3 (width * bpp) = row"
    using expected_size_multiple_of_8[OF assms(3), of width height] by (simp_all add: row_def)
  show ?thesis
    using assms(4,5,7) by (simp add: copy_payload_def a e memcpy_def l)
qed

lemma copy_payload_flat:
  assumes "drop_bit 3 (width * bpp) mod 64 = 0 \<or> fo_frame_size f \<le> expected_size"
    and "n = (if format = RS2_FORMAT_Y12I \<and> drop_bit 2 expected_size * 3 = fo_frame_size f
              then fo_frame_size f else expected_size)"
    and "n \<le> length (fo_pixels f)" "n \<le> length frame_data"
  shows "copy_payload width height bpp expected_size format f frame_data =
           Some (take n (fo_pixels f) @ drop n frame_data)"
  using assms by (auto simp: copy_payload_def memcpy_def Let_def)

text \<open>
  Claim C7, at a confidence stream of 16 by 1 pixels (the callback sets \<open>bpp = 4\<close>) and a
  raw buffer of 64 bytes: 8 bytes are expected and the row width \<open>16 * 4 >> 3 = 8\<close> is
  not a multiple of 64, so the rows are extracted. \<open>align_width_to_64\<close> computes the row
  width as \<open>16 * (4 >> 3) = 0\<close> and returns no byte; the copy of 8 bytes from it reads
  past its end. The 8 bytes of the unpadded row are not what the frame gets.
\<close>

theorem padded_confidence_frame_not_extracted:
  "compute_frame_expected_size 16 1 4 = 8
   \<and> drop_bit 3 (16 * 4 :: nat) mod 64 \<noteq> 0
   \<and> compute_frame_expected_size 16 1 4 < fo_frame_size padded_raw_buffer
   \<and> align_width_to_64 16 1 4 (fo_pixels padded_raw_buffer) = Some []
   \<and> copy_payload 16 1 4 8 RS2_FORMAT_RAW8 padded_raw_buffer (replicate 8 0) = None
   \<and> fst (uvc_frame_callback returning_handlers example_image_bpp confidence_profile
             new_frame_lambda padded_raw_buffer streaming_confidence_sensor)
       = Undefined_behaviour ''memcpy outside a buffer''"
  by (simp add: frame_defs source_defs base_defs uvc_defs example_defs copy_row_def
      align_width_to_64_def copy_payload_def uvc_frame_callback_def confidence_profile_def
      streaming_confidence_sensor_def padded_raw_buffer_def Let_def drop_bit_eq_div)

subsection \<open>Callbacks that are dropped\<close>

text \<open>
  A callback of a UVC sensor that finds the streaming flag false, or whose allocation
  finds the pool exhausted, returns without an effect on the world outside: the
  handler of the application is not called. It logs one line.
\<close>

lemma uvc_frame_callback_not_streaming:
  "\<not> is_streaming s \<Longrightarrow>
   uvc_frame_callback handlers get_image_bpp req_profile lam f s =
     (Returned, lam, write_log LOG_WARNING ''Frame received with streaming inactive'' s)"
  by (simp add: uvc_frame_callback_def)

lemma uvc_frame_callback_null_frame:
  assumes "is_streaming s"
    and "stream_to_frame_types (sp_stream_type req_profile) = Inr type"
    and "map_of (fs_archive (source s)) type = Some (Some ar)"
    and "unat (fs_max_publish_list_size (source s)) \<le> ar_published ar"
  shows "fst (uvc_frame_callback handlers get_image_bpp req_profile lam f s) = Returned"
    and "trace (snd (snd (uvc_frame_callback handlers get_image_bpp req_profile lam f s)))
           = trace s"
    and "source (snd (snd (uvc_frame_callback handlers get_image_bpp req_profile lam f s)))
           = source s"
  using assms
  by (simp_all add: uvc_frame_callback_def Let_def case_prod_beta write_log_def
      alloc_frame_exhausted)

lemma hid_capture_callback_not_streaming:
  assumes "\<not> is_streaming s"
    and "map_of (configured_profiles s) (sd_sensor_name sensor_data) = Some (Some request)"
    and "sd_sensor_name sensor_data \<noteq> ''custom''"
  shows "fst (hid_capture_callback handlers get_image_bpp lam sensor_data s) = Returned"
    and "trace (snd (snd (hid_capture_callback handlers get_image_bpp lam sensor_data s)))
           = trace s"
  using assms
  by (simp_all add: hid_capture_callback_def Let_def write_log_def)

text \<open>
  On a streaming HID sensor, a callback whose allocation finds the pool exhausted copies
  the sample through the null frame.
\<close>

lemma hid_capture_callback_null_frame:
  assumes "is_streaming s"
    and "map_of (configured_profiles s) (sd_sensor_name sensor_data) = Some (Some request)"
    and "sd_sensor_name sensor_data \<noteq> ''custom''"
    and "map_of (fs_archive (source s)) RS2_EXTENSION_MOTION_FRAME = Some (Some ar)"
    and "unat (fs_max_publish_list_size (source s)) \<le> ar_published ar"
  shows "fst (hid_capture_callback handlers get_image_bpp lam sensor_data s)
           = Undefined_behaviour ''memcpy through a null frame''"
  using assms
  by (simp add: hid_capture_callback_def hid_produce_frame_def Let_def case_prod_beta
      alloc_frame_exhausted)

text \<open>
  Claim C2, at a streaming HID sensor with a queue size of 1: the first sample of the
  gyro is delivered to the handler, which keeps the frame. For the second sample the
  allocation returns null; the callback calls \<open>get_frame_data\<close> on the null frame and
  copies the sample there, before the test that would drop it.
\<close>

theorem hid_null_frame_dereferenced:
  "is_streaming one_slot_hid_sensor
   \<and> fst (hid_capture_callback returning_handlers example_image_bpp new_frame_lambda
             gyro_sample one_slot_hid_sensor) = Returned
   \<and> length (new_events one_slot_hid_sensor
               (snd (snd (hid_capture_callback returning_handlers example_image_bpp
                            new_frame_lambda gyro_sample one_slot_hid_sensor)))) = 2
   \<and> fst (snd (alloc_frame
                  (source (snd (snd (hid_capture_callback returning_handlers example_image_bpp
                                       new_frame_lambda gyro_sample one_slot_hid_sensor))))
                  RS2_EXTENSION_MOTION_FRAME 6 example_additional_data True)) = None
   \<and> fst (hid_capture_callback returning_handlers example_image_bpp new_frame_lambda
             gyro_sample
             (snd (snd (hid_capture_callback returning_handlers example_image_bpp
                          new_frame_lambda gyro_sample one_slot_hid_sensor))))
       = Undefined_behaviour ''memcpy through a null frame''"
  by (simp add: frame_defs source_defs base_defs hid_defs example_defs
      hid_capture_callback_def hid_produce_frame_def custom_gpio_to_stream_type_def
      one_slot_hid_sensor_def gyro_sample_def new_events_def Let_def)

subsection \<open>Opening a synthetic sensor\<close>

lemma fold_skipped:
  "\<forall>x \<in> set xs. \<not> P x \<Longrightarrow> fold (\<lambda>x s. if P x then f x s else s) xs s = s"
  by (induction xs arbitrary: s) simp_all

text \<open>
  \<open>register_processing_block_options\<close> registers nothing: each option of the block is
  looked for in the list it was taken from, where it is found.
\<close>

lemma register_processing_block_options_nothing:
  "register_processing_block_options pb s = s"
proof -
  have "\<forall>opt \<in> set (pb_supported_options pb).
          \<not> \<not> list_ex (\<lambda>o'. o' = opt) (pb_supported_options pb)"
    by (simp add: list_ex_iff)
  from fold_skipped[OF this] show ?thesis
    by (simp add: register_processing_block_options_def Let_def)
qed

lemma register_all_nothing:
  "fold register_processing_block_options active_pbs s = s"
  by (induction active_pbs) (simp_all add: register_processing_block_options_nothing)

text \<open>
  A \<open>std::runtime_error\<close> of the raw sensor's \<open>open\<close> leaves \<open>synthetic_sensor::open\<close> as
  a \<open>recoverable_exception\<close> whose message has one line for each requested profile, with
  its format, width and height, and then the message of the raw sensor.
\<close>

lemma synthetic_open_rewraps:
  assumes "prepare_to_convert requests = Inr (resolved_req, active_pbs)"
    and "fst (raw_open dev resolved_req (raw_set_source_owner (self_ref s) (raw_sensor s)))
           = Some (runtime_error m)"
  shows "fst (synthetic_open prepare_to_convert dev requests s) =
           Some (recoverable_exception
                   (endl @ ''Failed to resolve the request: '' @ endl
                    @ concat (map request_info requests)
                    @ endl @ ''Into:'' @ endl @ m))"
  using assms
  by (simp add: synthetic_open_def Let_def case_prod_beta register_all_nothing
      split: option.splits)

text \<open>
  Claim C8, at a synthetic sensor that has the queue size option only, with an active
  converter that exposes the stream filter and the stream format filter: \<open>open\<close>
  returns, and neither option is supported by the sensor afterwards; nothing was
  registered or cached.
\<close>

theorem processing_block_options_not_registered:
  "fst (synthetic_open example_converter silent_device [depth_profile] new_synthetic_sensor)
     = None
   \<and> \<not> supports_option new_synthetic_sensor RS2_OPTION_STREAM_FILTER
   \<and> \<not> supports_option
         (snd (synthetic_open example_converter silent_device [depth_profile]
                 new_synthetic_sensor))
         RS2_OPTION_STREAM_FILTER
   \<and> \<not> supports_option
         (snd (synthetic_open example_converter silent_device [depth_profile]
                 new_synthetic_sensor))
         RS2_OPTION_STREAM_FORMAT_FILTER
   \<and> options (snd (synthetic_open example_converter silent_device [depth_profile]
                      new_synthetic_sensor))
       = [(RS2_OPTION_FRAMES_QUEUE_SIZE, Sensor_option)]
   \<and> cached_processing_blocks_options
        (snd (synthetic_open example_converter silent_device [depth_profile]
                new_synthetic_sensor)) = []"
  by (simp add: synthetic_open_def register_processing_block_options_def supports_option_def
      source_defs base_defs uvc_defs example_defs new_synthetic_sensor_def
      example_converter_def Let_def)

lemma synthetic_open_rewraps_example:
  "fst (synthetic_open example_converter
          (failing_device [(Dev_stream_on, backend_exception ''no stream'')])
          [depth_profile] new_synthetic_sensor) =
     Some (recoverable_exception
             (endl @ ''Failed to resolve the request: '' @ endl
              @ tab @ ''Format: Z16, width: 640, height: 480'' @ endl
              @ endl @ ''Into:'' @ endl
              @ tab @ ''Formats: '' @ endl @ tab @ '' Z16'' @ endl @ endl))"
  by (simp add: synthetic_open_def register_processing_block_options_def request_info_def
      stream_on_error_msg_def fourcc_to_rs2_format_def string_of_nat.simps
      source_defs base_defs uvc_defs example_defs new_synthetic_sensor_def
      example_converter_def Let_def)

subsection \<open>The legal sequence runs to its end; padded rows lose their padding\<close>

text \<open>
  On a transport that never throws, with a request set that \<open>open\<close> accepts, the legal
  sequence runs to its end without any exception.
\<close>

lemma commit_profiles_silent:
  "\<forall>h c. dev h c = None \<Longrightarrow> fst (commit_profiles dev reqs commited s) = None"
  by (induction reqs arbitrary: commited s) (simp_all add: call_def)

lemma acquire_power_silent:
  "\<forall>h c. dev h c = None \<Longrightarrow> fst (acquire_power dev s) = None"
  by (simp add: acquire_power_def Let_def case_prod_beta call_all_silent del: call_all.simps)

lemma uvc_open_silent:
  assumes "\<forall>h c. dev h c = None" "verify_supported_requests reqs = None"
    "\<not> is_opened s" "\<not> is_streaming s"
  shows "fst (uvc_open dev reqs s) = None"
  using assms acquire_power_silent[of dev s]
  by (simp add: uvc_open_def Let_def case_prod_beta commit_profiles_silent call_def
      split: option.splits)

lemma configure_requests_known:
  "\<forall>r \<in> set reqs. \<exists>name. rs2_stream_to_sensor_name (sensor_name_and_hid_profiles s)
       (sp_stream_type r) = Inr name \<Longrightarrow>
   fst (configure_requests reqs acc s) = None"
proof (induction reqs arbitrary: acc s)
  case Nil
  then show ?case by simp
next
  case (Cons r rs)
  then obtain name where n: "rs2_stream_to_sensor_name (sensor_name_and_hid_profiles s)
       (sp_stream_type r) = Inr name" by auto
  show ?case using Cons.prems by (simp add: n Cons.IH)
qed

lemma hid_open_silent:
  assumes "\<forall>h c. dev h c = None"
    "\<forall>r \<in> set reqs. \<exists>name. rs2_stream_to_sensor_name (sensor_name_and_hid_profiles s)
       (sp_stream_type r) = Inr name"
    "\<not> is_opened s" "\<not> is_streaming s"
  shows "fst (hid_open dev reqs s) = None"
  using assms configure_requests_known[OF assms(2), of "[]"]
  by (simp add: hid_open_def Let_def case_prod_beta call_def split: option.splits)

lemma legal_sequence_completes:
  assumes dev: "\<forall>h c. dev h c = None"
    and closed: "\<not> raw_is_opened r" "\<not> raw_is_streaming r"
    and accepted: "fst (raw_open dev requests r) = None"
  shows "fst (run_calls dev [Open requests, Start callback, Stop, Close] r) = None"
proof -
  have d: "\<forall>h c. \<not> is_sequence_error (dev h c)" using dev by simp
  obtain r1 where o: "raw_open dev requests r = (None, r1)"
    using accepted by (cases "raw_open dev requests r") auto
  have 1: "raw_is_opened r1 \<and> \<not> raw_is_streaming r1"
    using raw_open_legal(2)[OF closed d, of requests] o by simp
  obtain e2 r2 where s: "raw_start dev callback r1 = (e2, r2)" by fastforce
  have "fst (raw_start dev callback r1) = None"
    using 1 dev by (cases r1) (simp_all add: uvc_start_legal hid_start_legal)
  then have e2: "e2 = None" using s by simp
  have 2: "raw_is_opened r2 \<and> raw_is_streaming r2"
    using raw_start_legal(2)[OF _ _ d, of r1 callback] 1 s e2 by simp
  obtain e3 r3 where t: "raw_stop dev r2 = (e3, r3)" by fastforce
  have "fst (raw_stop dev r2) = None"
    using 2 dev by (cases r2) (simp_all add: uvc_stop_legal hid_stop_legal)
  then have e3: "e3 = None" using t by simp
  have 3: "raw_is_opened r3 \<and> \<not> raw_is_streaming r3"
    using raw_stop_legal(2)[OF _ _ d, of r2] 2 t e3 by simp
  obtain e4 r4 where c: "raw_close dev r3 = (e4, r4)" by fastforce
  have "fst (raw_close dev r3) = None"
    using 3 dev by (cases r3) (simp_all add: uvc_close_legal hid_close_legal)
  then have e4: "e4 = None" using c by simp
  show ?thesis by (simp add: o s t c e2 e3 e4)
qed

text \<open>
  A raw buffer made of rows that are each padded to the stride: \<open>align_width_to_64\<close>
  returns the rows without their padding.
\<close>

lemma drop_concat_rows:
  "\<forall>pr \<in> set prs. length pr = n \<Longrightarrow> drop (j * n) (concat prs) = concat (drop j prs)"
proof (induction prs arbitrary: j)
  case Nil
  then show ?case by simp
next
  case (Cons pr prs)
  show ?case
  proof (cases j)
    case 0
    then show ?thesis by simp
  next
    case (Suc k)
    then show ?thesis using Cons by simp
  qed
qed

lemma take_row_of_padded:
  assumes "\<forall>pr \<in> set prs. length pr = n" "row \<le> n" "j < length prs"
  shows "take row (drop (j * n) (concat prs)) = take row (prs ! j)"
proof -
  have "drop j prs = prs ! j # drop (Suc j) prs"
    using assms(3) by (simp add: Cons_nth_drop_Suc)
  moreover have "length (prs ! j) = n" using assms(1,3) by simp
  ultimately show ?thesis
    using assms(2) by (simp add: drop_concat_rows[OF assms(1)])
qed

lemma align_width_to_64_unpads:
  fixes width bpp :: nat and padded_rows :: "byte list list"
  defines "row \<equiv> width * (bpp div 8)"
  defines "stride \<equiv> (row div 64 + 1) * 64"
  assumes "\<forall>pr \<in> set padded_rows. length pr = stride"
  shows "align_width_to_64 width (length padded_rows) bpp (concat padded_rows) =
           Some (concat (map (take row) padded_rows))"
proof -
  let ?h = "length padded_rows"
  let ?pix = "concat padded_rows"
  have le: "row \<le> stride"
  proof -
    have "row = row div 64 * 64 + row mod 64" by simp
    also have "\<dots> \<le> row div 64 * 64 + 64" by simp
    finally show ?thesis by (simp add: stride_def)
  qed
  have len: "length ?pix = ?h * stride"
    using length_concat_rows[of padded_rows "\<lambda>pr. pr" stride] assms(3) by simp
  have long: "?h = 0 \<or> (?h - 1) * stride + row \<le> length ?pix"
  proof (cases "?h")
    case 0
    then show ?thesis by simp
  next
    case (Suc k)
    then show ?thesis using le by (simp add: len)
  qed
  have "map (\<lambda>j. take row (drop (j * stride) ?pix)) [0..<?h]
      = map (\<lambda>j. take row (padded_rows ! j)) [0..<?h]"
    using take_row_of_padded[OF assms(3) le] by simp
  also have "\<dots> = map (take row) (map (\<lambda>j. padded_rows ! j) [0..<?h])"
    by (simp add: comp_def)
  also have "\<dots> = map (take row) padded_rows"
    by (simp add: map_nth)
  finally show ?thesis
    using align_width_to_64_rows(1)[of ?h width bpp ?pix] long
    by (simp add: row_def stride_def)
qed

end
